theory Spec2Isabelle
  imports Main "HOL-Library.Word"
begin

section \<open>The NFT marketplace contracts\<close>

text \<open>
  A shallow embedding of \<^verbatim>\<open>contracts/NFTMarketplace.sol\<close> (the baseline contract) and of
  \<^verbatim>\<open>contracts/NFTMarketplaceOptimized.sol\<close> (the gas-optimised contract). Both are Solidity
  0.8 contracts that inherit from OpenZeppelin 5 (\<^verbatim>\<open>ERC721\<close>, \<^verbatim>\<open>ERC721URIStorage\<close>,
  \<^verbatim>\<open>Ownable\<close>, \<^verbatim>\<open>ReentrancyGuard\<close>). The inherited library is not part of the repository;
  the functions of it that the two contracts call or expose are written out below after the
  library's published behaviour, each under the library's own name.

  Conventions of the embedding:
  \<^item> \<^verbatim>\<open>uint256\<close>, \<^verbatim>\<open>uint96\<close> and \<^verbatim>\<open>address\<close> are machine words; checked arithmetic
    (the default of Solidity 0.8) reverts with \<^verbatim>\<open>Panic(0x11)\<close>, arithmetic in an
    \<^verbatim>\<open>unchecked\<close> block wraps;
  \<^item> a Solidity \<^verbatim>\<open>mapping\<close> is a total function (an absent key reads as zero);
  \<^item> a function body is a list of statements, run in order on the contract's storage;
    each statement either fails with an error or continues; every storage write, every
    outbound ether transfer and every event is appended to a log, in program order;
  \<^item> an outbound \<^verbatim>\<open>payable(a).transfer(v)\<close> is an external call: the recipient may
    reject the transfer, which reverts the caller, and it may call back into the contract
    before it returns. \<^verbatim>\<open>transfer\<close> forwards 2300 gas only, which does not pay for a
    storage write, so a call made from inside it cannot change the contract's storage: it
    can only be attempted. The log entry of the transfer keeps the storage as it is while
    the recipient runs, and \<open>reenter\<close> gives the outcome of a call attempted on it;
  \<^item> a reverted call leaves the storage as it was before the call (\<open>execute\<close>);
  \<^item> every call names its caller. On the chain the caller is never the zero address; no
    result below depends on that.
\<close>

subsection \<open>Values, errors, events\<close>

type_synonym address = "160 word"
type_synonym uint256 = "256 word"
type_synonym uint96 = "96 word"

datatype error =
    Error string  \<comment> \<open>\<^verbatim>\<open>require(cond, "message")\<close>\<close>
  | Panic nat  \<comment> \<open>\<^verbatim>\<open>Panic(0x11)\<close>: checked arithmetic overflowed\<close>
  | EtherTransferFailed  \<comment> \<open>\<^verbatim>\<open>payable(a).transfer(v)\<close> failed\<close>
  | ReentrancyGuardReentrantCall
  | OwnableUnauthorizedAccount address
  | OwnableInvalidOwner address
  | ERC721NonexistentToken uint256
  | ERC721IncorrectOwner address uint256 address
  | ERC721InvalidSender address
  | ERC721InvalidReceiver address
  | ERC721InsufficientApproval address uint256
  | ERC721InvalidApprover address
  | ERC721InvalidOperator address

datatype event =
    NFTListed uint256 address uint256
  | NFTSold uint256 address address uint256
  | ListingCancelled uint256
  | ListingFeeUpdated uint256
  | Transfer address address uint256
  | Approval address address uint256
  | ApprovalForAll address address bool
  | MetadataUpdate uint256
  | OwnershipTransferred address address

text \<open>The storage variables a statement can write.\<close>

datatype slot =
    Listings uint256
  | PendingWithdrawals address
  | NextTokenIdCounter
  | ListingFee
  | Owners uint256
  | TokenApprovals uint256
  | OperatorApprovals address address
  | TokenURIs uint256
  | Owner
  | Status

text \<open>What an outbound ether transfer is for, after the comments at its three call sites.\<close>

datatype purpose = Fee | Refund | Payout

datatype 's effect =
    Stored slot
  | Sent purpose address uint256 's
  | Emitted event

datatype guard = NOT_ENTERED | ENTERED

subsection \<open>Storage\<close>

text \<open>
  The storage layout shared by both contracts. The two differ in the type of a listing
  (\<open>'l\<close>) and of the listing fee (\<open>'f\<close>). The fields from \<open>erc721_owners\<close> on are the inherited
  ones (\<^verbatim>\<open>_owners\<close>, \<^verbatim>\<open>_tokenApprovals\<close>, \<^verbatim>\<open>_operatorApprovals\<close>, \<^verbatim>\<open>_tokenURIs\<close>,
  \<^verbatim>\<open>Ownable._owner\<close>, \<^verbatim>\<open>ReentrancyGuard._status\<close>); \<open>eth_balance\<close> is the ether held by
  the contract, in wei. The per-owner token counters of the library (\<^verbatim>\<open>_balances\<close>) are
  bookkeeping that neither contract reads; they are left out.
\<close>

record ('l, 'f) state =
  listings :: "uint256 \<Rightarrow> 'l"
  pendingWithdrawals :: "address \<Rightarrow> uint256"
  nextTokenIdCounter :: uint256
  listingFee :: 'f
  erc721_owners :: "uint256 \<Rightarrow> address"
  tokenApprovals :: "uint256 \<Rightarrow> address"
  operatorApprovals :: "address \<Rightarrow> address \<Rightarrow> bool"
  tokenURIs :: "uint256 \<Rightarrow> string"
  ownable_owner :: address
  guard_status :: guard
  eth_balance :: nat

record msg =
  msg_sender :: address
  msg_value :: uint256

text \<open>
  The world outside the contract, as far as a call depends on it: whether an address
  accepts a plain ether transfer of a given amount (an externally owned account always
  does; a contract decides in its \<^verbatim>\<open>receive\<close> function, within the 2300 gas that
  \<^verbatim>\<open>transfer\<close> forwards), and whether an address accepts a token sent with
  \<^verbatim>\<open>safeTransferFrom\<close> (\<^verbatim>\<open>onERC721Received\<close>).
\<close>

record env =
  recv :: "address \<Rightarrow> uint256 \<Rightarrow> bool"
  accepts_token :: "address \<Rightarrow> bool"

subsection \<open>Statements\<close>

type_synonym 's cfg = "'s \<times> 's effect list"
type_synonym 's stmt = "'s cfg \<Rightarrow> error option \<times> 's cfg"

definition skip :: "'s stmt" where
  "skip c = (None, c)"

definition revert :: "error \<Rightarrow> 's stmt" where
  "revert e c = (Some e, c)"

definition require :: "('s \<Rightarrow> bool) \<Rightarrow> error \<Rightarrow> 's stmt" where
  "require b e c = (if b (fst c) then (None, c) else (Some e, c))"

definition only_if :: "bool \<Rightarrow> 's stmt \<Rightarrow> 's stmt" where
  "only_if b f = (if b then f else skip)"

definition reading :: "('s \<Rightarrow> 'a) \<Rightarrow> ('a \<Rightarrow> 's stmt) \<Rightarrow> 's stmt" where
  "reading f k c = k (f (fst c)) c"

definition store :: "slot \<Rightarrow> ('s \<Rightarrow> 's) \<Rightarrow> 's stmt" where
  "store sl f c = (None, (f (fst c), snd c @ [Stored sl]))"

definition emit :: "event \<Rightarrow> 's stmt" where
  "emit ev c = (None, (fst c, snd c @ [Emitted ev]))"

fun steps :: "'s stmt list \<Rightarrow> 's stmt" where
  "steps [] c = (None, c)"
| "steps (f # fs) c = (case f c of (None, c') \<Rightarrow> steps fs c' | (Some e, c') \<Rightarrow> (Some e, c'))"

text \<open>
  A \<^verbatim>\<open>payable\<close> function receives \<^verbatim>\<open>msg.value\<close> before its body runs. The balance of an
  account never overflows on the chain (there is less ether than \<open>2 ^ 256\<close> wei), so it is a
  natural number here.
\<close>

definition payable :: "uint256 \<Rightarrow> ('l, 'f) state stmt" where
  "payable v c = (None, ((fst c)\<lparr>eth_balance := eth_balance (fst c) + unat v\<rparr>, snd c))"

text \<open>
  \<^verbatim>\<open>payable(to).transfer(amt)\<close>: fails when the contract does not hold \<open>amt\<close> or when the
  recipient rejects it. The recipient runs after the ether has left the contract; that
  storage is recorded in the log.
\<close>

definition send :: "env \<Rightarrow> purpose \<Rightarrow> address \<Rightarrow> uint256 \<Rightarrow> ('l, 'f) state stmt" where
  "send ev p to amt c =
     (if eth_balance (fst c) < unat amt then (Some EtherTransferFailed, c)
      else let s' = (fst c)\<lparr>eth_balance := eth_balance (fst c) - unat amt\<rparr> in
        if recv ev to amt then (None, (s', snd c @ [Sent p to amt s']))
        else (Some EtherTransferFailed, (s', snd c)))"

text \<open>The outcome of a call. A revert discards every change the body made.\<close>

datatype 's outcome = Success "'s effect list" | Reverted error

definition execute :: "'s stmt \<Rightarrow> 's \<Rightarrow> 's outcome \<times> 's" where
  "execute f s = (case f (s, []) of
       (None, (s', l)) \<Rightarrow> (Success l, s')
     | (Some e, _) \<Rightarrow> (Reverted e, s))"

subsection \<open>Inherited: ReentrancyGuard and Ownable\<close>

definition nonReentrant :: "('l, 'f) state stmt \<Rightarrow> ('l, 'f) state stmt" where
  "nonReentrant body = steps [
     require (\<lambda>s. guard_status s \<noteq> ENTERED) ReentrancyGuardReentrantCall,
     store Status (\<lambda>s. s\<lparr>guard_status := ENTERED\<rparr>),
     body,
     store Status (\<lambda>s. s\<lparr>guard_status := NOT_ENTERED\<rparr>)]"

definition onlyOwner :: "address \<Rightarrow> ('l, 'f) state stmt \<Rightarrow> ('l, 'f) state stmt" where
  "onlyOwner caller body = steps [
     require (\<lambda>s. ownable_owner s = caller) (OwnableUnauthorizedAccount caller),
     body]"

definition transferOwnership_internal :: "address \<Rightarrow> ('l, 'f) state stmt" where
  "transferOwnership_internal newOwner = reading ownable_owner (\<lambda>oldOwner. steps [
     store Owner (\<lambda>s. s\<lparr>ownable_owner := newOwner\<rparr>),
     emit (OwnershipTransferred oldOwner newOwner)])"

definition transferOwnership :: "address \<Rightarrow> address \<Rightarrow> ('l, 'f) state stmt" where
  "transferOwnership caller newOwner = onlyOwner caller (steps [
     require (\<lambda>_. newOwner \<noteq> 0) (OwnableInvalidOwner 0),
     transferOwnership_internal newOwner])"

definition renounceOwnership :: "address \<Rightarrow> ('l, 'f) state stmt" where
  "renounceOwnership caller = onlyOwner caller (transferOwnership_internal 0)"

subsection \<open>Inherited: ERC721\<close>

text \<open>\<^verbatim>\<open>ownerOf\<close> reverts for a token that does not exist.\<close>

definition ownerOf :: "uint256 \<Rightarrow> (address \<Rightarrow> ('l, 'f) state stmt) \<Rightarrow> ('l, 'f) state stmt" where
  "ownerOf tokenId k = reading (\<lambda>s. erc721_owners s tokenId) (\<lambda>holder.
     if holder = 0 then revert (ERC721NonexistentToken tokenId) else k holder)"

definition isAuthorized :: "('l, 'f) state \<Rightarrow> address \<Rightarrow> address \<Rightarrow> uint256 \<Rightarrow> bool" where
  "isAuthorized s holder spender tokenId \<longleftrightarrow>
     spender \<noteq> 0 \<and> (holder = spender \<or> operatorApprovals s holder spender
                     \<or> tokenApprovals s tokenId = spender)"

definition checkAuthorized :: "address \<Rightarrow> address \<Rightarrow> uint256 \<Rightarrow> ('l, 'f) state stmt" where
  "checkAuthorized holder spender tokenId = reading (\<lambda>s. isAuthorized s holder spender tokenId) (\<lambda>ok.
     if ok then skip
     else if holder = 0 then revert (ERC721NonexistentToken tokenId)
     else revert (ERC721InsufficientApproval spender tokenId))"

text \<open>
  \<^verbatim>\<open>ERC721._update\<close>, the one place where the library changes the owner of a token. It
  returns the previous owner, here to the continuation \<open>k\<close>.
\<close>

definition erc721_update ::
  "address \<Rightarrow> uint256 \<Rightarrow> address \<Rightarrow> (address \<Rightarrow> ('l, 'f) state stmt) \<Rightarrow> ('l, 'f) state stmt" where
  "erc721_update to tokenId auth k = reading (\<lambda>s. erc721_owners s tokenId) (\<lambda>from. steps [
     only_if (auth \<noteq> 0) (checkAuthorized from auth tokenId),
     only_if (from \<noteq> 0)
       (store (TokenApprovals tokenId) (\<lambda>s. s\<lparr>tokenApprovals := (tokenApprovals s)(tokenId := 0)\<rparr>)),
     store (Owners tokenId) (\<lambda>s. s\<lparr>erc721_owners := (erc721_owners s)(tokenId := to)\<rparr>),
     emit (Transfer from to tokenId),
     k from])"

text \<open>
  The functions below reach \<^verbatim>\<open>_update\<close> through virtual dispatch, so they run the
  override of the deriving contract: it is their first argument.
\<close>

type_synonym ('l, 'f) update_hook =
  "address \<Rightarrow> uint256 \<Rightarrow> address \<Rightarrow> (address \<Rightarrow> ('l, 'f) state stmt) \<Rightarrow> ('l, 'f) state stmt"

definition erc721_mint :: "('l, 'f) update_hook \<Rightarrow> address \<Rightarrow> uint256 \<Rightarrow> ('l, 'f) state stmt" where
  "erc721_mint upd to tokenId = steps [
     require (\<lambda>_. to \<noteq> 0) (ERC721InvalidReceiver 0),
     upd to tokenId 0 (\<lambda>previousOwner.
       require (\<lambda>_. previousOwner = 0) (ERC721InvalidSender 0))]"

definition erc721_transfer ::
  "('l, 'f) update_hook \<Rightarrow> address \<Rightarrow> address \<Rightarrow> uint256 \<Rightarrow> ('l, 'f) state stmt" where
  "erc721_transfer upd from to tokenId = steps [
     require (\<lambda>_. to \<noteq> 0) (ERC721InvalidReceiver 0),
     upd to tokenId 0 (\<lambda>previousOwner.
       if previousOwner = 0 then revert (ERC721NonexistentToken tokenId)
       else require (\<lambda>_. previousOwner = from) (ERC721IncorrectOwner from tokenId previousOwner))]"

definition transferFrom ::
  "('l, 'f) update_hook \<Rightarrow> address \<Rightarrow> address \<Rightarrow> address \<Rightarrow> uint256 \<Rightarrow> ('l, 'f) state stmt" where
  "transferFrom upd caller from to tokenId = steps [
     require (\<lambda>_. to \<noteq> 0) (ERC721InvalidReceiver 0),
     upd to tokenId caller (\<lambda>previousOwner.
       require (\<lambda>_. previousOwner = from) (ERC721IncorrectOwner from tokenId previousOwner))]"

text \<open>
  \<^verbatim>\<open>safeTransferFrom\<close> is \<^verbatim>\<open>transferFrom\<close> followed by the acceptance check of the
  recipient. The check is the last step, so whatever the recipient calls from inside it
  is a sequence of further calls on the storage the transfer produced.
\<close>

definition safeTransferFrom ::
  "('l, 'f) update_hook \<Rightarrow> env \<Rightarrow> address \<Rightarrow> address \<Rightarrow> address \<Rightarrow> uint256 \<Rightarrow> ('l, 'f) state stmt" where
  "safeTransferFrom upd ev caller from to tokenId = steps [
     transferFrom upd caller from to tokenId,
     require (\<lambda>_. accepts_token ev to) (ERC721InvalidReceiver to)]"

definition approve :: "address \<Rightarrow> address \<Rightarrow> uint256 \<Rightarrow> ('l, 'f) state stmt" where
  "approve caller to tokenId = ownerOf tokenId (\<lambda>holder. steps [
     require (\<lambda>s. caller = 0 \<or> holder = caller \<or> operatorApprovals s holder caller)
       (ERC721InvalidApprover caller),
     emit (Approval holder to tokenId),
     store (TokenApprovals tokenId) (\<lambda>s. s\<lparr>tokenApprovals := (tokenApprovals s)(tokenId := to)\<rparr>)])"

definition setApprovalForAll :: "address \<Rightarrow> address \<Rightarrow> bool \<Rightarrow> ('l, 'f) state stmt" where
  "setApprovalForAll caller operator approved = steps [
     require (\<lambda>_. operator \<noteq> 0) (ERC721InvalidOperator operator),
     store (OperatorApprovals caller operator)
       (\<lambda>s. s\<lparr>operatorApprovals := (operatorApprovals s)(caller := (operatorApprovals s caller)(operator := approved))\<rparr>),
     emit (ApprovalForAll caller operator approved)]"

text \<open>\<^verbatim>\<open>_setTokenURI\<close> of \<^verbatim>\<open>ERC721URIStorage\<close>.\<close>

definition setTokenURI :: "uint256 \<Rightarrow> string \<Rightarrow> ('l, 'f) state stmt" where
  "setTokenURI tokenId uri = steps [
     store (TokenURIs tokenId) (\<lambda>s. s\<lparr>tokenURIs := (tokenURIs s)(tokenId := uri)\<rparr>),
     emit (MetadataUpdate tokenId)]"

subsection \<open>Shared by both contracts\<close>

text \<open>\<^verbatim>\<open>withdrawFunds\<close> and \<^verbatim>\<open>getPendingWithdrawal\<close> are the same in the two files.\<close>

definition withdrawFunds :: "env \<Rightarrow> address \<Rightarrow> ('l, 'f) state stmt" where
  "withdrawFunds ev caller = nonReentrant (reading (\<lambda>s. pendingWithdrawals s caller) (\<lambda>amount. steps [
     require (\<lambda>_. amount > 0) (Error ''No funds to withdraw''),
     store (PendingWithdrawals caller) (\<lambda>s. s\<lparr>pendingWithdrawals := (pendingWithdrawals s)(caller := 0)\<rparr>),
     send ev Payout caller amount]))"

definition getPendingWithdrawal :: "('l, 'f) state \<Rightarrow> address \<Rightarrow> uint256" where
  "getPendingWithdrawal s a = pendingWithdrawals s a"

subsection \<open>The baseline contract (NFTMarketplace.sol)\<close>

record listing =
  price :: uint256
  seller :: address
  isActive :: bool

type_synonym base = "(listing, uint256) state"

text \<open>The override of \<^verbatim>\<open>_update\<close>: a transfer of a listed token cancels the listing.\<close>

definition update :: "(listing, uint256) update_hook" where
  "update to tokenId auth k = reading (\<lambda>s. erc721_owners s tokenId) (\<lambda>from. steps [
     reading (\<lambda>s. isActive (listings s tokenId)) (\<lambda>active.
       only_if (from \<noteq> 0 \<and> active)
         (store (Listings tokenId)
            (\<lambda>s. s\<lparr>listings := (listings s)(tokenId := (listings s tokenId)\<lparr>isActive := False\<rparr>)\<rparr>))),
     erc721_update to tokenId auth k])"

definition mintNFT :: "address \<Rightarrow> string \<Rightarrow> base stmt" where
  "mintNFT caller uri = reading nextTokenIdCounter (\<lambda>tokenId. steps [
     if unat tokenId + 1 < 2 ^ 256
     then store NextTokenIdCounter (\<lambda>s. s\<lparr>nextTokenIdCounter := tokenId + 1\<rparr>)
     else revert (Panic 17),
     erc721_mint update caller tokenId,
     setTokenURI tokenId uri])"

definition listNFT :: "env \<Rightarrow> msg \<Rightarrow> uint256 \<Rightarrow> uint256 \<Rightarrow> base stmt" where
  "listNFT ev m tokenId p = steps [payable (msg_value m), nonReentrant (steps [
     ownerOf tokenId (\<lambda>holder. require (\<lambda>_. holder = msg_sender m) (Error ''Not the owner'')),
     require (\<lambda>_. p > 0) (Error ''Price must be greater than 0''),
     require (\<lambda>s. msg_value m \<ge> listingFee s) (Error ''Insufficient listing fee''),
     require (\<lambda>s. \<not> isActive (listings s tokenId)) (Error ''Already listed''),
     store (Listings tokenId)
       (\<lambda>s. s\<lparr>listings := (listings s)(tokenId := \<lparr>price = p, seller = msg_sender m, isActive = True\<rparr>)\<rparr>),
     reading ownable_owner (\<lambda>operator. reading listingFee (\<lambda>fee. send ev Fee operator fee)),
     reading listingFee (\<lambda>fee.
       only_if (msg_value m > fee) (send ev Refund (msg_sender m) (msg_value m - fee))),
     emit (NFTListed tokenId (msg_sender m) p)])]"

definition buyNFT :: "env \<Rightarrow> msg \<Rightarrow> uint256 \<Rightarrow> base stmt" where
  "buyNFT ev m tokenId = steps [payable (msg_value m),
     nonReentrant (reading (\<lambda>s. listings s tokenId) (\<lambda>l. steps [
       require (\<lambda>_. isActive l) (Error ''NFT not listed''),
       require (\<lambda>_. msg_value m \<ge> price l) (Error ''Insufficient payment''),
       store (Listings tokenId)
         (\<lambda>s. s\<lparr>listings := (listings s)(tokenId := (listings s tokenId)\<lparr>isActive := False\<rparr>)\<rparr>),
       erc721_transfer update (seller l) (msg_sender m) tokenId,
       reading (\<lambda>s. pendingWithdrawals s (seller l)) (\<lambda>owed.
         if unat owed + unat (price l) < 2 ^ 256
         then store (PendingWithdrawals (seller l))
                (\<lambda>s. s\<lparr>pendingWithdrawals := (pendingWithdrawals s)(seller l := owed + price l)\<rparr>)
         else revert (Panic 17)),
       only_if (msg_value m > price l) (send ev Refund (msg_sender m) (msg_value m - price l)),
       emit (NFTSold tokenId (msg_sender m) (seller l) (price l))]))]"

definition cancelListing :: "address \<Rightarrow> uint256 \<Rightarrow> base stmt" where
  "cancelListing caller tokenId = steps [
     ownerOf tokenId (\<lambda>holder. require (\<lambda>_. holder = caller) (Error ''Not the owner'')),
     require (\<lambda>s. isActive (listings s tokenId)) (Error ''Not listed''),
     store (Listings tokenId)
       (\<lambda>s. s\<lparr>listings := (listings s)(tokenId := (listings s tokenId)\<lparr>isActive := False\<rparr>)\<rparr>),
     emit (ListingCancelled tokenId)]"

definition getListing :: "base \<Rightarrow> uint256 \<Rightarrow> listing" where
  "getListing s tokenId = listings s tokenId"

definition setListingFee :: "address \<Rightarrow> uint256 \<Rightarrow> base stmt" where
  "setListingFee caller newFee = onlyOwner caller (steps [
     store ListingFee (\<lambda>s. s\<lparr>listingFee := newFee\<rparr>),
     emit (ListingFeeUpdated newFee)])"

subsection \<open>The optimised contract (NFTMarketplaceOptimized.sol)\<close>

text \<open>
  The names of the optimised contract carry the suffix \<open>_opt\<close>. Its listing has no
  \<^verbatim>\<open>isActive\<close> field: a listing is active when its price is not zero, and
  \<^verbatim>\<open>delete listings[tokenId]\<close> resets both fields to zero.
\<close>

record listing_opt =
  price_opt :: uint96
  seller_opt :: address

type_synonym opt = "(listing_opt, uint96) state"

definition uint96_max :: uint256 where
  "uint96_max = 2 ^ 96 - 1"

definition update_opt :: "(listing_opt, uint96) update_hook" where
  "update_opt to tokenId auth k = reading (\<lambda>s. erc721_owners s tokenId) (\<lambda>from. steps [
     only_if (from \<noteq> 0) (reading (\<lambda>s. listings s tokenId) (\<lambda>l.
       only_if (price_opt l > 0)
         (store (Listings tokenId)
            (\<lambda>s. s\<lparr>listings := (listings s)(tokenId := \<lparr>price_opt = 0, seller_opt = 0\<rparr>)\<rparr>)))),
     erc721_update to tokenId auth k])"

definition mintNFT_opt :: "address \<Rightarrow> string \<Rightarrow> opt stmt" where
  "mintNFT_opt caller uri = reading nextTokenIdCounter (\<lambda>tokenId. steps [
     store NextTokenIdCounter (\<lambda>s. s\<lparr>nextTokenIdCounter := tokenId + 1\<rparr>),
     erc721_mint update_opt caller tokenId,
     setTokenURI tokenId uri])"

definition listNFT_opt :: "env \<Rightarrow> msg \<Rightarrow> uint256 \<Rightarrow> uint256 \<Rightarrow> opt stmt" where
  "listNFT_opt ev m tokenId p = steps [payable (msg_value m), nonReentrant (steps [
     require (\<lambda>_. p > 0) (Error ''Price must be greater than 0''),
     require (\<lambda>_. p \<le> uint96_max) (Error ''Price too high''),
     require (\<lambda>s. msg_value m \<ge> ucast (listingFee s)) (Error ''Insufficient listing fee''),
     ownerOf tokenId (\<lambda>holder. require (\<lambda>_. holder = msg_sender m) (Error ''Not the owner'')),
     require (\<lambda>s. price_opt (listings s tokenId) = 0) (Error ''Already listed''),
     store (Listings tokenId)
       (\<lambda>s. s\<lparr>listings := (listings s)(tokenId := \<lparr>price_opt = ucast p, seller_opt = msg_sender m\<rparr>)\<rparr>),
     reading (\<lambda>s. msg_value m - ucast (listingFee s)) (\<lambda>refund. steps [
       reading ownable_owner (\<lambda>operator. reading listingFee (\<lambda>fee. send ev Fee operator (ucast fee))),
       only_if (refund > 0) (send ev Refund (msg_sender m) refund)]),
     emit (NFTListed tokenId (msg_sender m) p)])]"

definition buyNFT_opt :: "env \<Rightarrow> msg \<Rightarrow> uint256 \<Rightarrow> opt stmt" where
  "buyNFT_opt ev m tokenId = steps [payable (msg_value m),
     nonReentrant (reading (\<lambda>s. listings s tokenId) (\<lambda>l. steps [
       require (\<lambda>_. price_opt l > 0) (Error ''NFT not listed''),
       require (\<lambda>_. msg_value m \<ge> ucast (price_opt l)) (Error ''Insufficient payment''),
       store (Listings tokenId)
         (\<lambda>s. s\<lparr>listings := (listings s)(tokenId := \<lparr>price_opt = 0, seller_opt = 0\<rparr>)\<rparr>),
       erc721_transfer update_opt (seller_opt l) (msg_sender m) tokenId,
       store (PendingWithdrawals (seller_opt l))
         (\<lambda>s. s\<lparr>pendingWithdrawals :=
                 (pendingWithdrawals s)(seller_opt l := pendingWithdrawals s (seller_opt l) + ucast (price_opt l))\<rparr>),
       reading (\<lambda>_. msg_value m - ucast (price_opt l)) (\<lambda>refund.
         only_if (refund > 0) (send ev Refund (msg_sender m) refund)),
       emit (NFTSold tokenId (msg_sender m) (seller_opt l) (ucast (price_opt l)))]))]"

definition cancelListing_opt :: "address \<Rightarrow> uint256 \<Rightarrow> opt stmt" where
  "cancelListing_opt caller tokenId = steps [
     ownerOf tokenId (\<lambda>holder. require (\<lambda>_. holder = caller) (Error ''Not the owner'')),
     require (\<lambda>s. price_opt (listings s tokenId) > 0) (Error ''Not listed''),
     store (Listings tokenId)
       (\<lambda>s. s\<lparr>listings := (listings s)(tokenId := \<lparr>price_opt = 0, seller_opt = 0\<rparr>)\<rparr>),
     emit (ListingCancelled tokenId)]"

definition getListing_opt :: "opt \<Rightarrow> uint256 \<Rightarrow> uint96 \<times> address \<times> bool" where
  "getListing_opt s tokenId =
     (let l = listings s tokenId in (price_opt l, seller_opt l, price_opt l > 0))"

definition setListingFee_opt :: "address \<Rightarrow> uint256 \<Rightarrow> opt stmt" where
  "setListingFee_opt caller newFee = onlyOwner caller (steps [
     require (\<lambda>_. newFee \<le> uint96_max) (Error ''Fee too high''),
     store ListingFee (\<lambda>s. s\<lparr>listingFee := ucast newFee\<rparr>),
     emit (ListingFeeUpdated newFee)])"

subsection \<open>Calls and transactions\<close>

text \<open>
  The external functions of the contracts. Every call names its caller; the two
  \<^verbatim>\<open>payable\<close> functions take the whole message (caller and value).
\<close>

datatype call =
    MintNFT address string
  | ListNFT msg uint256 uint256
  | BuyNFT msg uint256
  | CancelListing address uint256
  | WithdrawFunds address
  | SetListingFee address uint256
  | TransferFrom address address address uint256
  | SafeTransferFrom address address address uint256
  | Approve address address uint256
  | SetApprovalForAll address address bool
  | TransferOwnership address address
  | RenounceOwnership address

fun dispatch :: "env \<Rightarrow> call \<Rightarrow> base stmt" where
  "dispatch ev (MintNFT caller uri) = mintNFT caller uri"
| "dispatch ev (ListNFT m tokenId p) = listNFT ev m tokenId p"
| "dispatch ev (BuyNFT m tokenId) = buyNFT ev m tokenId"
| "dispatch ev (CancelListing caller tokenId) = cancelListing caller tokenId"
| "dispatch ev (WithdrawFunds caller) = withdrawFunds ev caller"
| "dispatch ev (SetListingFee caller newFee) = setListingFee caller newFee"
| "dispatch ev (TransferFrom caller from to tokenId) = transferFrom update caller from to tokenId"
| "dispatch ev (SafeTransferFrom caller from to tokenId) = safeTransferFrom update ev caller from to tokenId"
| "dispatch ev (Approve caller to tokenId) = approve caller to tokenId"
| "dispatch ev (SetApprovalForAll caller operator approved) = setApprovalForAll caller operator approved"
| "dispatch ev (TransferOwnership caller newOwner) = transferOwnership caller newOwner"
| "dispatch ev (RenounceOwnership caller) = renounceOwnership caller"

fun dispatch_opt :: "env \<Rightarrow> call \<Rightarrow> opt stmt" where
  "dispatch_opt ev (MintNFT caller uri) = mintNFT_opt caller uri"
| "dispatch_opt ev (ListNFT m tokenId p) = listNFT_opt ev m tokenId p"
| "dispatch_opt ev (BuyNFT m tokenId) = buyNFT_opt ev m tokenId"
| "dispatch_opt ev (CancelListing caller tokenId) = cancelListing_opt caller tokenId"
| "dispatch_opt ev (WithdrawFunds caller) = withdrawFunds ev caller"
| "dispatch_opt ev (SetListingFee caller newFee) = setListingFee_opt caller newFee"
| "dispatch_opt ev (TransferFrom caller from to tokenId) = transferFrom update_opt caller from to tokenId"
| "dispatch_opt ev (SafeTransferFrom caller from to tokenId) = safeTransferFrom update_opt ev caller from to tokenId"
| "dispatch_opt ev (Approve caller to tokenId) = approve caller to tokenId"
| "dispatch_opt ev (SetApprovalForAll caller operator approved) = setApprovalForAll caller operator approved"
| "dispatch_opt ev (TransferOwnership caller newOwner) = transferOwnership caller newOwner"
| "dispatch_opt ev (RenounceOwnership caller) = renounceOwnership caller"

text \<open>A transaction: one call, in the environment of its time.\<close>

definition transact :: "env \<Rightarrow> base \<Rightarrow> call \<Rightarrow> base outcome \<times> base" where
  "transact ev s c = execute (dispatch ev c) s"

definition transact_opt :: "env \<Rightarrow> opt \<Rightarrow> call \<Rightarrow> opt outcome \<times> opt" where
  "transact_opt ev s c = execute (dispatch_opt ev c) s"

text \<open>The storage after deployment by \<open>deployer\<close> (\<^verbatim>\<open>0.01 ether\<close> is \<open>10 ^ 16\<close> wei).\<close>

definition init :: "address \<Rightarrow> base" where
  "init deployer = \<lparr>
     listings = (\<lambda>_. \<lparr>price = 0, seller = 0, isActive = False\<rparr>),
     pendingWithdrawals = (\<lambda>_. 0),
     nextTokenIdCounter = 0,
     listingFee = 10000000000000000,
     erc721_owners = (\<lambda>_. 0),
     tokenApprovals = (\<lambda>_. 0),
     operatorApprovals = (\<lambda>_ _. False),
     tokenURIs = (\<lambda>_. []),
     ownable_owner = deployer,
     guard_status = NOT_ENTERED,
     eth_balance = 0\<rparr>"

definition init_opt :: "address \<Rightarrow> opt" where
  "init_opt deployer = \<lparr>
     listings = (\<lambda>_. \<lparr>price_opt = 0, seller_opt = 0\<rparr>),
     pendingWithdrawals = (\<lambda>_. 0),
     nextTokenIdCounter = 0,
     listingFee = 10000000000000000,
     erc721_owners = (\<lambda>_. 0),
     tokenApprovals = (\<lambda>_. 0),
     operatorApprovals = (\<lambda>_ _. False),
     tokenURIs = (\<lambda>_. []),
     ownable_owner = deployer,
     guard_status = NOT_ENTERED,
     eth_balance = 0\<rparr>"

text \<open>
  A history is a list of transactions. \<open>run\<close> gives the storage after it, \<open>history\<close>
  each call with its outcome.
\<close>

fun run :: "base \<Rightarrow> (env \<times> call) list \<Rightarrow> base" where
  "run s [] = s"
| "run s (tx # txs) = run (snd (transact (fst tx) s (snd tx))) txs"

fun history :: "base \<Rightarrow> (env \<times> call) list \<Rightarrow> (call \<times> base outcome) list" where
  "history s [] = []"
| "history s (tx # txs) =
     (snd tx, fst (transact (fst tx) s (snd tx))) # history (snd (transact (fst tx) s (snd tx))) txs"

fun run_opt :: "opt \<Rightarrow> (env \<times> call) list \<Rightarrow> opt" where
  "run_opt s [] = s"
| "run_opt s (tx # txs) = run_opt (snd (transact_opt (fst tx) s (snd tx))) txs"

fun history_opt :: "opt \<Rightarrow> (env \<times> call) list \<Rightarrow> (call \<times> opt outcome) list" where
  "history_opt s [] = []"
| "history_opt s (tx # txs) =
     (snd tx, fst (transact_opt (fst tx) s (snd tx)))
       # history_opt (snd (transact_opt (fst tx) s (snd tx))) txs"

subsection \<open>Reading outcomes and logs\<close>

fun is_success :: "'s outcome \<Rightarrow> bool" where
  "is_success (Success l) = True"
| "is_success (Reverted e) = False"

fun error_of :: "'s outcome \<Rightarrow> error option" where
  "error_of (Success l) = None"
| "error_of (Reverted e) = Some e"

fun log_of :: "'s outcome \<Rightarrow> 's effect list" where
  "log_of (Success l) = l"
| "log_of (Reverted e) = []"

text \<open>The log without the storage snapshots, so that logs of the two contracts compare.\<close>

fun erase :: "'s effect \<Rightarrow> unit effect" where
  "erase (Stored sl) = Stored sl"
| "erase (Sent p a v s) = Sent p a v ()"
| "erase (Emitted e) = Emitted e"

fun events :: "'s effect list \<Rightarrow> event list" where
  "events [] = []"
| "events (Emitted e # l) = e # events l"
| "events (x # l) = events l"

text \<open>The storage each recipient of an outbound transfer finds, in order.\<close>

fun snapshots :: "'s effect list \<Rightarrow> 's list" where
  "snapshots [] = []"
| "snapshots (Sent p a v s # l) = s # snapshots l"
| "snapshots (x # l) = snapshots l"

text \<open>The wei sent out for one purpose.\<close>

fun sent :: "purpose \<Rightarrow> 's effect list \<Rightarrow> nat" where
  "sent p [] = 0"
| "sent p (Sent q a v s # l) = (if q = p then unat v else 0) + sent p l"
| "sent p (x # l) = sent p l"

text \<open>What a call outside the contract gets when it re-enters during an outbound transfer.\<close>

definition reenter :: "env \<Rightarrow> call \<Rightarrow> base effect list \<Rightarrow> base outcome list" where
  "reenter ev c l = map (\<lambda>s. fst (transact ev s c)) (snapshots l)"

definition reenter_opt :: "env \<Rightarrow> call \<Rightarrow> opt effect list \<Rightarrow> opt outcome list" where
  "reenter_opt ev c l = map (\<lambda>s. fst (transact_opt ev s c)) (snapshots l)"

subsection \<open>Ledger totals\<close>

text \<open>The sum of all escrow balances (there are finitely many addresses).\<close>

definition sum_balances :: "(address \<Rightarrow> uint256) \<Rightarrow> nat" where
  "sum_balances f = (\<Sum>a\<in>UNIV. unat (f a))"

definition escrow_total :: "('l, 'f) state \<Rightarrow> nat" where
  "escrow_total s = sum_balances (pendingWithdrawals s)"

text \<open>The wei a call brings in.\<close>

fun paid_in :: "call \<Rightarrow> nat" where
  "paid_in (ListNFT m tokenId p) = unat (msg_value m)"
| "paid_in (BuyNFT m tokenId) = unat (msg_value m)"
| "paid_in c = 0"

fun is_list :: "call \<Rightarrow> bool" where
  "is_list (ListNFT m tokenId p) = True"
| "is_list c = False"

fun is_buy :: "call \<Rightarrow> bool" where
  "is_buy (BuyNFT m tokenId) = True"
| "is_buy c = False"

text \<open>
  Totals over a history; only successful calls count. What a list or a buy keeps is
  its value less the refund it sent back.
\<close>

fun withdrawn :: "(call \<times> 's outcome) list \<Rightarrow> nat" where
  "withdrawn [] = 0"
| "withdrawn ((c, out) # h) = sent Payout (log_of out) + withdrawn h"

fun fees_collected :: "(call \<times> 's outcome) list \<Rightarrow> nat" where
  "fees_collected [] = 0"
| "fees_collected ((c, out) # h) = sent Fee (log_of out) + fees_collected h"

fun fees_paid_in :: "(call \<times> 's outcome) list \<Rightarrow> nat" where
  "fees_paid_in [] = 0"
| "fees_paid_in ((c, out) # h) =
     (if is_list c \<and> is_success out then paid_in c - sent Refund (log_of out) else 0) + fees_paid_in h"

fun prices_received :: "(call \<times> 's outcome) list \<Rightarrow> nat" where
  "prices_received [] = 0"
| "prices_received ((c, out) # h) =
     (if is_buy c \<and> is_success out then paid_in c - sent Refund (log_of out) else 0) + prices_received h"

subsection \<open>Example inputs\<close>

text \<open>An environment in which every recipient accepts, and one in which one address rejects ether.\<close>

definition env_ok :: env where
  "env_ok = \<lparr>recv = (\<lambda>_ _. True), accepts_token = (\<lambda>_. True)\<rparr>"

definition env_rejecting :: "address \<Rightarrow> env" where
  "env_rejecting a = \<lparr>recv = (\<lambda>to _. to \<noteq> a), accepts_token = (\<lambda>_. True)\<rparr>"

text \<open>
  A storage in which token 0 is listed by address 2 but owned by address 3, so that the
  ownership transfer inside a buy fails after the listing has been written.
\<close>

definition stale :: base where
  "stale = (init 1)\<lparr>listings := (listings (init 1))(0 := \<lparr>price = 5, seller = 2, isActive = True\<rparr>),
                     erc721_owners := (erc721_owners (init 1))(0 := 3)\<rparr>"

definition stale_opt :: opt where
  "stale_opt = (init_opt 1)\<lparr>listings := (listings (init_opt 1))(0 := \<lparr>price_opt = 5, seller_opt = 2\<rparr>),
                             erc721_owners := (erc721_owners (init_opt 1))(0 := 3)\<rparr>"

text \<open>Three histories: a mint and a listing; then a sale; then the seller's withdrawal.\<close>

definition listing_txs :: "(env \<times> call) list" where
  "listing_txs = [
     (env_ok, MintNFT 2 ''ipfs://a''),
     (env_ok, ListNFT \<lparr>msg_sender = 2, msg_value = 10000000000000003\<rparr> 0 5)]"

definition sale_txs :: "(env \<times> call) list" where
  "sale_txs = listing_txs @ [(env_ok, BuyNFT \<lparr>msg_sender = 3, msg_value = 7\<rparr> 0)]"

definition demo_txs :: "(env \<times> call) list" where
  "demo_txs = sale_txs @ [(env_ok, WithdrawFunds 2)]"

subsection \<open>Invariants\<close>

text \<open>Every active listing belongs to the current owner of an existing token.\<close>

definition coherent :: "base \<Rightarrow> bool" where
  "coherent s \<longleftrightarrow>
     (\<forall>t. isActive (listings s t) \<longrightarrow> erc721_owners s t \<noteq> 0 \<and> seller (listings s t) = erc721_owners s t)"

definition coherent_opt :: "opt \<Rightarrow> bool" where
  "coherent_opt s \<longleftrightarrow>
     (\<forall>t. price_opt (listings s t) \<noteq> 0 \<longrightarrow> erc721_owners s t \<noteq> 0 \<and> seller_opt (listings s t) = erc721_owners s t)"

text \<open>A call that lists token \<open>t\<close>.\<close>

fun lists_token :: "uint256 \<Rightarrow> call \<Rightarrow> bool" where
  "lists_token t (ListNFT m tokenId p) = (tokenId = t)"
| "lists_token t c = False"

text \<open>
  A mint and a listing (at the exact fee) by address 2, in a world where address 2 is a
  contract that cannot receive ether.
\<close>

definition rejecting_txs :: "(env \<times> call) list" where
  "rejecting_txs = [
     (env_rejecting 2, MintNFT 2 ''ipfs://a''),
     (env_rejecting 2, ListNFT \<lparr>msg_sender = 2, msg_value = 10000000000000000\<rparr> 0 5)]"

subsection \<open>Comparing the two contracts\<close>

text \<open>
  The storages of the baseline and of the optimised contract correspond when all shared
  variables are equal, the fees are equal as numbers, and the listings agree: a listing is
  active in the baseline exactly when its price is not zero in the optimised contract, and
  an active listing has the same price and seller in both.
\<close>

definition related :: "base \<Rightarrow> opt \<Rightarrow> bool" where
  "related b q \<longleftrightarrow>
     pendingWithdrawals b = pendingWithdrawals q \<and> nextTokenIdCounter b = nextTokenIdCounter q
     \<and> listingFee b = ucast (listingFee q)
     \<and> erc721_owners b = erc721_owners q \<and> tokenApprovals b = tokenApprovals q
     \<and> operatorApprovals b = operatorApprovals q \<and> tokenURIs b = tokenURIs q
     \<and> ownable_owner b = ownable_owner q \<and> guard_status b = guard_status q
     \<and> eth_balance b = eth_balance q
     \<and> (\<forall>t. isActive (listings b t) \<longleftrightarrow> price_opt (listings q t) \<noteq> 0)
     \<and> (\<forall>t. isActive (listings b t) \<longrightarrow>
              price (listings b t) = ucast (price_opt (listings q t))
              \<and> seller (listings b t) = seller_opt (listings q t))"

text \<open>The prices and fees a call carries fit \<^verbatim>\<open>uint96\<close>.\<close>

fun fits_uint96 :: "call \<Rightarrow> bool" where
  "fits_uint96 (ListNFT m tokenId p) = (p \<le> uint96_max)"
| "fits_uint96 (SetListingFee caller newFee) = (newFee \<le> uint96_max)"
| "fits_uint96 c = True"

text \<open>
  Two outcomes of the same call agree when both succeed with the same log (storage
  snapshots aside) or both fail; the errors are the same, except that a failing listing
  may report a different one of the checks that fail.
\<close>

fun same_outcome :: "call \<Rightarrow> base outcome \<Rightarrow> opt outcome \<Rightarrow> bool" where
  "same_outcome c (Success l) (Success lo) = (map erase l = map erase lo)"
| "same_outcome c (Reverted e) (Reverted eo) = (is_list c \<or> e = eo)"
| "same_outcome c (Success l) (Reverted eo) = False"
| "same_outcome c (Reverted e) (Success lo) = False"

fun agree :: "call \<times> base outcome \<Rightarrow> call \<times> opt outcome \<Rightarrow> bool" where
  "agree (c, out) (c', out') = (c = c' \<and> same_outcome c out out')"

text \<open>The wei a history brings in.\<close>

fun total_paid :: "(env \<times> call) list \<Rightarrow> nat" where
  "total_paid [] = 0"
| "total_paid (tx # txs) = paid_in (snd tx) + total_paid txs"

section \<open>Properties\<close>

subsection \<open>Symbolic execution of every external function\<close>

text \<open>
  Each function, run as a transaction on an arbitrary storage, written out as the
  cascade of its checks, in program order, and the log and storage of the successful run.
\<close>

lemmas stmt_defs = skip_def revert_def require_def only_if_def reading_def store_def emit_def
  payable_def send_def nonReentrant_def onlyOwner_def execute_def

lemma execute_reverted: "fst (execute f s) = Reverted e \<Longrightarrow> snd (execute f s) = s"
  by (auto simp: execute_def split: prod.splits option.splits)

lemma execute_withdrawFunds:
  "execute (withdrawFunds ev caller) s =
    (if guard_status s = ENTERED then (Reverted ReentrancyGuardReentrantCall, s)
     else if pendingWithdrawals s caller = 0 then (Reverted (Error ''No funds to withdraw''), s)
     else if eth_balance s < unat (pendingWithdrawals s caller) then (Reverted EtherTransferFailed, s)
     else if \<not> recv ev caller (pendingWithdrawals s caller) then (Reverted EtherTransferFailed, s)
     else (Success [Stored Status, Stored (PendingWithdrawals caller),
                    Sent Payout caller (pendingWithdrawals s caller)
                      (s\<lparr>guard_status := ENTERED,
                         pendingWithdrawals := (pendingWithdrawals s)(caller := 0),
                         eth_balance := eth_balance s - unat (pendingWithdrawals s caller)\<rparr>),
                    Stored Status],
           s\<lparr>pendingWithdrawals := (pendingWithdrawals s)(caller := 0),
             eth_balance := eth_balance s - unat (pendingWithdrawals s caller),
             guard_status := NOT_ENTERED\<rparr>))"
  by (simp add: stmt_defs withdrawFunds_def Let_def word_greater_zero_iff)

lemma execute_approve:
  "execute (approve caller to tokenId) s =
    (if erc721_owners s tokenId = 0 then (Reverted (ERC721NonexistentToken tokenId), s)
     else if \<not> (caller = 0 \<or> erc721_owners s tokenId = caller
                 \<or> operatorApprovals s (erc721_owners s tokenId) caller)
       then (Reverted (ERC721InvalidApprover caller), s)
     else (Success [Emitted (Approval (erc721_owners s tokenId) to tokenId), Stored (TokenApprovals tokenId)],
           s\<lparr>tokenApprovals := (tokenApprovals s)(tokenId := to)\<rparr>))"
  by (simp add: stmt_defs approve_def ownerOf_def)

lemma execute_setApprovalForAll:
  "execute (setApprovalForAll caller operator approved) s =
    (if operator = 0 then (Reverted (ERC721InvalidOperator operator), s)
     else (Success [Stored (OperatorApprovals caller operator), Emitted (ApprovalForAll caller operator approved)],
           s\<lparr>operatorApprovals := (operatorApprovals s)(caller := (operatorApprovals s caller)(operator := approved))\<rparr>))"
  by (simp add: stmt_defs setApprovalForAll_def)

lemma execute_transferOwnership:
  "execute (transferOwnership caller newOwner) s =
    (if ownable_owner s \<noteq> caller then (Reverted (OwnableUnauthorizedAccount caller), s)
     else if newOwner = 0 then (Reverted (OwnableInvalidOwner 0), s)
     else (Success [Stored Owner, Emitted (OwnershipTransferred (ownable_owner s) newOwner)],
           s\<lparr>ownable_owner := newOwner\<rparr>))"
  by (simp add: stmt_defs transferOwnership_def transferOwnership_internal_def)

lemma execute_renounceOwnership:
  "execute (renounceOwnership caller) s =
    (if ownable_owner s \<noteq> caller then (Reverted (OwnableUnauthorizedAccount caller), s)
     else (Success [Stored Owner, Emitted (OwnershipTransferred (ownable_owner s) 0)],
           s\<lparr>ownable_owner := 0\<rparr>))"
  by (simp add: stmt_defs renounceOwnership_def transferOwnership_internal_def)

lemma execute_setListingFee:
  "execute (setListingFee caller newFee) s =
    (if ownable_owner s \<noteq> caller then (Reverted (OwnableUnauthorizedAccount caller), s)
     else (Success [Stored ListingFee, Emitted (ListingFeeUpdated newFee)], s\<lparr>listingFee := newFee\<rparr>))"
  by (simp add: stmt_defs setListingFee_def)

lemma execute_setListingFee_opt:
  "execute (setListingFee_opt caller newFee) s =
    (if ownable_owner s \<noteq> caller then (Reverted (OwnableUnauthorizedAccount caller), s)
     else if \<not> newFee \<le> uint96_max then (Reverted (Error ''Fee too high''), s)
     else (Success [Stored ListingFee, Emitted (ListingFeeUpdated newFee)], s\<lparr>listingFee := ucast newFee\<rparr>))"
  by (simp add: stmt_defs setListingFee_opt_def)

lemma execute_cancelListing:
  "execute (cancelListing caller tokenId) s =
    (if erc721_owners s tokenId = 0 then (Reverted (ERC721NonexistentToken tokenId), s)
     else if erc721_owners s tokenId \<noteq> caller then (Reverted (Error ''Not the owner''), s)
     else if \<not> isActive (listings s tokenId) then (Reverted (Error ''Not listed''), s)
     else (Success [Stored (Listings tokenId), Emitted (ListingCancelled tokenId)],
           s\<lparr>listings := (listings s)(tokenId := (listings s tokenId)\<lparr>isActive := False\<rparr>)\<rparr>))"
  by (simp add: stmt_defs cancelListing_def ownerOf_def)

lemma execute_cancelListing_opt:
  "execute (cancelListing_opt caller tokenId) s =
    (if erc721_owners s tokenId = 0 then (Reverted (ERC721NonexistentToken tokenId), s)
     else if erc721_owners s tokenId \<noteq> caller then (Reverted (Error ''Not the owner''), s)
     else if price_opt (listings s tokenId) = 0 then (Reverted (Error ''Not listed''), s)
     else (Success [Stored (Listings tokenId), Emitted (ListingCancelled tokenId)],
           s\<lparr>listings := (listings s)(tokenId := \<lparr>price_opt = 0, seller_opt = 0\<rparr>)\<rparr>))"
  by (simp add: stmt_defs cancelListing_opt_def ownerOf_def word_greater_zero_iff)

lemma execute_mintNFT:
  "execute (mintNFT caller uri) s =
    (if \<not> unat (nextTokenIdCounter s) + 1 < 2 ^ 256 then (Reverted (Panic 17), s)
     else if caller = 0 then (Reverted (ERC721InvalidReceiver 0), s)
     else if erc721_owners s (nextTokenIdCounter s) \<noteq> 0 then (Reverted (ERC721InvalidSender 0), s)
     else (Success [Stored NextTokenIdCounter, Stored (Owners (nextTokenIdCounter s)),
                    Emitted (Transfer 0 caller (nextTokenIdCounter s)),
                    Stored (TokenURIs (nextTokenIdCounter s)), Emitted (MetadataUpdate (nextTokenIdCounter s))],
           s\<lparr>nextTokenIdCounter := nextTokenIdCounter s + 1,
             erc721_owners := (erc721_owners s)(nextTokenIdCounter s := caller),
             tokenURIs := (tokenURIs s)(nextTokenIdCounter s := uri)\<rparr>))"
  by (simp add: stmt_defs mintNFT_def erc721_mint_def update_def erc721_update_def setTokenURI_def)

lemma execute_mintNFT_opt:
  "execute (mintNFT_opt caller uri) s =
    (if caller = 0 then (Reverted (ERC721InvalidReceiver 0), s)
     else if erc721_owners s (nextTokenIdCounter s) \<noteq> 0 then (Reverted (ERC721InvalidSender 0), s)
     else (Success [Stored NextTokenIdCounter, Stored (Owners (nextTokenIdCounter s)),
                    Emitted (Transfer 0 caller (nextTokenIdCounter s)),
                    Stored (TokenURIs (nextTokenIdCounter s)), Emitted (MetadataUpdate (nextTokenIdCounter s))],
           s\<lparr>nextTokenIdCounter := nextTokenIdCounter s + 1,
             erc721_owners := (erc721_owners s)(nextTokenIdCounter s := caller),
             tokenURIs := (tokenURIs s)(nextTokenIdCounter s := uri)\<rparr>))"
  by (simp add: stmt_defs mintNFT_opt_def erc721_mint_def update_opt_def erc721_update_def setTokenURI_def)


lemma execute_transferFrom:
  "execute (transferFrom update caller from to tokenId) s =
    (if to = 0 then (Reverted (ERC721InvalidReceiver 0), s)
     else if caller \<noteq> 0 \<and> \<not> isAuthorized s (erc721_owners s tokenId) caller tokenId
       then (Reverted (if erc721_owners s tokenId = 0 then ERC721NonexistentToken tokenId
                       else ERC721InsufficientApproval caller tokenId), s)
     else if erc721_owners s tokenId \<noteq> from
       then (Reverted (ERC721IncorrectOwner from tokenId (erc721_owners s tokenId)), s)
     else (Success ((if from \<noteq> 0 \<and> isActive (listings s tokenId) then [Stored (Listings tokenId)] else [])
                    @ (if from \<noteq> 0 then [Stored (TokenApprovals tokenId)] else [])
                    @ [Stored (Owners tokenId), Emitted (Transfer from to tokenId)]),
           s\<lparr>listings := (if from \<noteq> 0 \<and> isActive (listings s tokenId)
                           then (listings s)(tokenId := (listings s tokenId)\<lparr>isActive := False\<rparr>)
                           else listings s),
             tokenApprovals := (if from \<noteq> 0 then (tokenApprovals s)(tokenId := 0) else tokenApprovals s),
             erc721_owners := (erc721_owners s)(tokenId := to)\<rparr>))"
  by (simp add: stmt_defs transferFrom_def update_def erc721_update_def checkAuthorized_def isAuthorized_def)

lemma execute_safeTransferFrom:
  "execute (safeTransferFrom update ev caller from to tokenId) s =
    (if to = 0 then (Reverted (ERC721InvalidReceiver 0), s)
     else if caller \<noteq> 0 \<and> \<not> isAuthorized s (erc721_owners s tokenId) caller tokenId
       then (Reverted (if erc721_owners s tokenId = 0 then ERC721NonexistentToken tokenId
                       else ERC721InsufficientApproval caller tokenId), s)
     else if erc721_owners s tokenId \<noteq> from
       then (Reverted (ERC721IncorrectOwner from tokenId (erc721_owners s tokenId)), s)
     else if \<not> accepts_token ev to then (Reverted (ERC721InvalidReceiver to), s)
     else (Success ((if from \<noteq> 0 \<and> isActive (listings s tokenId) then [Stored (Listings tokenId)] else [])
                    @ (if from \<noteq> 0 then [Stored (TokenApprovals tokenId)] else [])
                    @ [Stored (Owners tokenId), Emitted (Transfer from to tokenId)]),
           s\<lparr>listings := (if from \<noteq> 0 \<and> isActive (listings s tokenId)
                           then (listings s)(tokenId := (listings s tokenId)\<lparr>isActive := False\<rparr>)
                           else listings s),
             tokenApprovals := (if from \<noteq> 0 then (tokenApprovals s)(tokenId := 0) else tokenApprovals s),
             erc721_owners := (erc721_owners s)(tokenId := to)\<rparr>))"
  by (simp add: stmt_defs safeTransferFrom_def transferFrom_def update_def erc721_update_def checkAuthorized_def isAuthorized_def)

lemma execute_transferFrom_opt:
  "execute (transferFrom update_opt caller from to tokenId) s =
    (if to = 0 then (Reverted (ERC721InvalidReceiver 0), s)
     else if caller \<noteq> 0 \<and> \<not> isAuthorized s (erc721_owners s tokenId) caller tokenId
       then (Reverted (if erc721_owners s tokenId = 0 then ERC721NonexistentToken tokenId
                       else ERC721InsufficientApproval caller tokenId), s)
     else if erc721_owners s tokenId \<noteq> from
       then (Reverted (ERC721IncorrectOwner from tokenId (erc721_owners s tokenId)), s)
     else (Success ((if from \<noteq> 0 \<and> price_opt (listings s tokenId) \<noteq> 0 then [Stored (Listings tokenId)] else [])
                    @ (if from \<noteq> 0 then [Stored (TokenApprovals tokenId)] else [])
                    @ [Stored (Owners tokenId), Emitted (Transfer from to tokenId)]),
           s\<lparr>listings := (if from \<noteq> 0 \<and> price_opt (listings s tokenId) \<noteq> 0
                           then (listings s)(tokenId := \<lparr>price_opt = 0, seller_opt = 0\<rparr>)
                           else listings s),
             tokenApprovals := (if from \<noteq> 0 then (tokenApprovals s)(tokenId := 0) else tokenApprovals s),
             erc721_owners := (erc721_owners s)(tokenId := to)\<rparr>))"
  by (simp add: stmt_defs transferFrom_def update_opt_def erc721_update_def checkAuthorized_def isAuthorized_def word_greater_zero_iff)

lemma execute_safeTransferFrom_opt:
  "execute (safeTransferFrom update_opt ev caller from to tokenId) s =
    (if to = 0 then (Reverted (ERC721InvalidReceiver 0), s)
     else if caller \<noteq> 0 \<and> \<not> isAuthorized s (erc721_owners s tokenId) caller tokenId
       then (Reverted (if erc721_owners s tokenId = 0 then ERC721NonexistentToken tokenId
                       else ERC721InsufficientApproval caller tokenId), s)
     else if erc721_owners s tokenId \<noteq> from
       then (Reverted (ERC721IncorrectOwner from tokenId (erc721_owners s tokenId)), s)
     else if \<not> accepts_token ev to then (Reverted (ERC721InvalidReceiver to), s)
     else (Success ((if from \<noteq> 0 \<and> price_opt (listings s tokenId) \<noteq> 0 then [Stored (Listings tokenId)] else [])
                    @ (if from \<noteq> 0 then [Stored (TokenApprovals tokenId)] else [])
                    @ [Stored (Owners tokenId), Emitted (Transfer from to tokenId)]),
           s\<lparr>listings := (if from \<noteq> 0 \<and> price_opt (listings s tokenId) \<noteq> 0
                           then (listings s)(tokenId := \<lparr>price_opt = 0, seller_opt = 0\<rparr>)
                           else listings s),
             tokenApprovals := (if from \<noteq> 0 then (tokenApprovals s)(tokenId := 0) else tokenApprovals s),
             erc721_owners := (erc721_owners s)(tokenId := to)\<rparr>))"
  by (simp add: stmt_defs safeTransferFrom_def transferFrom_def update_opt_def erc721_update_def checkAuthorized_def isAuthorized_def word_greater_zero_iff)

lemma unat_pay1: "fee \<le> v \<Longrightarrow> \<not> (b + unat v < unat fee)" for v :: "'a::len word"
  by (simp add: word_le_nat_alt)

lemma unat_pay2: "fee \<le> v \<Longrightarrow> \<not> (b + unat v - unat fee < unat (v - fee))" for v :: "'a::len word"
  by (simp add: word_less_nat_alt unat_sub word_le_nat_alt)

lemma unat_pay3: "fee \<le> v \<Longrightarrow> b + unat v - (unat fee + unat (v - fee)) = b" for v :: "'a::len word"
  by (simp add: word_less_nat_alt unat_sub word_le_nat_alt)

lemma execute_listNFT:
  "execute (listNFT ev m tokenId p) s =
    (if guard_status s = ENTERED then (Reverted ReentrancyGuardReentrantCall, s)
     else if erc721_owners s tokenId = 0 then (Reverted (ERC721NonexistentToken tokenId), s)
     else if erc721_owners s tokenId \<noteq> msg_sender m then (Reverted (Error ''Not the owner''), s)
     else if p = 0 then (Reverted (Error ''Price must be greater than 0''), s)
     else if \<not> listingFee s \<le> msg_value m then (Reverted (Error ''Insufficient listing fee''), s)
     else if isActive (listings s tokenId) then (Reverted (Error ''Already listed''), s)
     else if \<not> recv ev (ownable_owner s) (listingFee s) then (Reverted EtherTransferFailed, s)
     else if listingFee s < msg_value m \<and> \<not> recv ev (msg_sender m) (msg_value m - listingFee s)
       then (Reverted EtherTransferFailed, s)
     else (Success ([Stored Status, Stored (Listings tokenId),
                     Sent Fee (ownable_owner s) (listingFee s)
                       (s\<lparr>eth_balance := eth_balance s + unat (msg_value m) - unat (listingFee s),
                          guard_status := ENTERED,
                          listings := (listings s)(tokenId := \<lparr>price = p, seller = msg_sender m, isActive = True\<rparr>)\<rparr>)]
                    @ (if listingFee s < msg_value m
                       then [Sent Refund (msg_sender m) (msg_value m - listingFee s)
                              (s\<lparr>eth_balance := eth_balance s,
                                 guard_status := ENTERED,
                                 listings := (listings s)(tokenId := \<lparr>price = p, seller = msg_sender m, isActive = True\<rparr>)\<rparr>)]
                       else [])
                    @ [Emitted (NFTListed tokenId (msg_sender m) p), Stored Status]),
           s\<lparr>eth_balance := eth_balance s,
             listings := (listings s)(tokenId := \<lparr>price = p, seller = msg_sender m, isActive = True\<rparr>),
             guard_status := NOT_ENTERED\<rparr>))"
  by (simp add: stmt_defs listNFT_def ownerOf_def Let_def word_greater_zero_iff unat_pay1 unat_pay2 unat_pay3)


lemma unat_pay4: "pr \<le> v \<Longrightarrow> \<not> (b + unat v < unat (v - pr))" for v :: "'a::len word"
  by (simp add: word_le_nat_alt unat_sub)

lemma unat_pay5: "pr \<le> v \<Longrightarrow> b + unat v - unat (v - pr) = b + unat pr" for v :: "'a::len word"
  by (simp add: word_le_nat_alt unat_sub)

lemma execute_buyNFT:
  "execute (buyNFT ev m tokenId) s =
    (if guard_status s = ENTERED then (Reverted ReentrancyGuardReentrantCall, s)
     else if \<not> isActive (listings s tokenId) then (Reverted (Error ''NFT not listed''), s)
     else if \<not> price (listings s tokenId) \<le> msg_value m then (Reverted (Error ''Insufficient payment''), s)
     else if msg_sender m = 0 then (Reverted (ERC721InvalidReceiver 0), s)
     else if erc721_owners s tokenId = 0 then (Reverted (ERC721NonexistentToken tokenId), s)
     else if erc721_owners s tokenId \<noteq> seller (listings s tokenId)
       then (Reverted (ERC721IncorrectOwner (seller (listings s tokenId)) tokenId (erc721_owners s tokenId)), s)
     else if \<not> unat (pendingWithdrawals s (seller (listings s tokenId))) + unat (price (listings s tokenId)) < 2 ^ 256
       then (Reverted (Panic 17), s)
     else if price (listings s tokenId) < msg_value m
             \<and> \<not> recv ev (msg_sender m) (msg_value m - price (listings s tokenId))
       then (Reverted EtherTransferFailed, s)
     else (Success ([Stored Status, Stored (Listings tokenId), Stored (TokenApprovals tokenId),
                     Stored (Owners tokenId),
                     Emitted (Transfer (seller (listings s tokenId)) (msg_sender m) tokenId),
                     Stored (PendingWithdrawals (seller (listings s tokenId)))]
                    @ (if price (listings s tokenId) < msg_value m
                       then [Sent Refund (msg_sender m) (msg_value m - price (listings s tokenId))
                              (s\<lparr>eth_balance := eth_balance s + unat (price (listings s tokenId)),
                                 guard_status := ENTERED,
                                 listings := (listings s)(tokenId := (listings s tokenId)\<lparr>isActive := False\<rparr>),
                                 tokenApprovals := (tokenApprovals s)(tokenId := 0),
                                 erc721_owners := (erc721_owners s)(tokenId := msg_sender m),
                                 pendingWithdrawals := (pendingWithdrawals s)
                                   (seller (listings s tokenId) :=
                                      pendingWithdrawals s (seller (listings s tokenId)) + price (listings s tokenId))\<rparr>)]
                       else [])
                    @ [Emitted (NFTSold tokenId (msg_sender m) (seller (listings s tokenId)) (price (listings s tokenId))),
                       Stored Status]),
           s\<lparr>eth_balance := eth_balance s + unat (price (listings s tokenId)),
             listings := (listings s)(tokenId := (listings s tokenId)\<lparr>isActive := False\<rparr>),
             tokenApprovals := (tokenApprovals s)(tokenId := 0),
             erc721_owners := (erc721_owners s)(tokenId := msg_sender m),
             pendingWithdrawals := (pendingWithdrawals s)
               (seller (listings s tokenId) :=
                  pendingWithdrawals s (seller (listings s tokenId)) + price (listings s tokenId)),
             guard_status := NOT_ENTERED\<rparr>))"
  by (simp add: stmt_defs buyNFT_def erc721_transfer_def update_def erc721_update_def Let_def
        unat_pay4 unat_pay5)


lemma execute_listNFT_opt:
  "execute (listNFT_opt ev m tokenId p) s =
    (if guard_status s = ENTERED then (Reverted ReentrancyGuardReentrantCall, s)
     else if p = 0 then (Reverted (Error ''Price must be greater than 0''), s)
     else if \<not> p \<le> uint96_max then (Reverted (Error ''Price too high''), s)
     else if \<not> ucast (listingFee s) \<le> msg_value m then (Reverted (Error ''Insufficient listing fee''), s)
     else if erc721_owners s tokenId = 0 then (Reverted (ERC721NonexistentToken tokenId), s)
     else if erc721_owners s tokenId \<noteq> msg_sender m then (Reverted (Error ''Not the owner''), s)
     else if price_opt (listings s tokenId) \<noteq> 0 then (Reverted (Error ''Already listed''), s)
     else if \<not> recv ev (ownable_owner s) (ucast (listingFee s)) then (Reverted EtherTransferFailed, s)
     else if msg_value m - ucast (listingFee s) \<noteq> 0
             \<and> \<not> recv ev (msg_sender m) (msg_value m - ucast (listingFee s))
       then (Reverted EtherTransferFailed, s)
     else (Success ([Stored Status, Stored (Listings tokenId),
                     Sent Fee (ownable_owner s) (ucast (listingFee s))
                       (s\<lparr>eth_balance := eth_balance s + unat (msg_value m) - unat (ucast (listingFee s) :: uint256),
                          guard_status := ENTERED,
                          listings := (listings s)(tokenId := \<lparr>price_opt = ucast p, seller_opt = msg_sender m\<rparr>)\<rparr>)]
                    @ (if msg_value m - ucast (listingFee s) \<noteq> 0
                       then [Sent Refund (msg_sender m) (msg_value m - ucast (listingFee s))
                              (s\<lparr>eth_balance := eth_balance s,
                                 guard_status := ENTERED,
                                 listings := (listings s)(tokenId := \<lparr>price_opt = ucast p, seller_opt = msg_sender m\<rparr>)\<rparr>)]
                       else [])
                    @ [Emitted (NFTListed tokenId (msg_sender m) p), Stored Status]),
           s\<lparr>eth_balance := eth_balance s,
             listings := (listings s)(tokenId := \<lparr>price_opt = ucast p, seller_opt = msg_sender m\<rparr>),
             guard_status := NOT_ENTERED\<rparr>))"
  by (simp add: stmt_defs listNFT_opt_def ownerOf_def Let_def word_greater_zero_iff unat_pay1 unat_pay2 unat_pay3)

lemma execute_buyNFT_opt:
  "execute (buyNFT_opt ev m tokenId) s =
    (if guard_status s = ENTERED then (Reverted ReentrancyGuardReentrantCall, s)
     else if price_opt (listings s tokenId) = 0 then (Reverted (Error ''NFT not listed''), s)
     else if \<not> ucast (price_opt (listings s tokenId)) \<le> msg_value m then (Reverted (Error ''Insufficient payment''), s)
     else if msg_sender m = 0 then (Reverted (ERC721InvalidReceiver 0), s)
     else if erc721_owners s tokenId = 0 then (Reverted (ERC721NonexistentToken tokenId), s)
     else if erc721_owners s tokenId \<noteq> seller_opt (listings s tokenId)
       then (Reverted (ERC721IncorrectOwner (seller_opt (listings s tokenId)) tokenId (erc721_owners s tokenId)), s)
     else if msg_value m - ucast (price_opt (listings s tokenId)) \<noteq> 0
             \<and> \<not> recv ev (msg_sender m) (msg_value m - ucast (price_opt (listings s tokenId)))
       then (Reverted EtherTransferFailed, s)
     else (Success ([Stored Status, Stored (Listings tokenId), Stored (TokenApprovals tokenId),
                     Stored (Owners tokenId),
                     Emitted (Transfer (seller_opt (listings s tokenId)) (msg_sender m) tokenId),
                     Stored (PendingWithdrawals (seller_opt (listings s tokenId)))]
                    @ (if msg_value m - ucast (price_opt (listings s tokenId)) \<noteq> 0
                       then [Sent Refund (msg_sender m) (msg_value m - ucast (price_opt (listings s tokenId)))
                              (s\<lparr>eth_balance := eth_balance s + unat (ucast (price_opt (listings s tokenId)) :: uint256),
                                 guard_status := ENTERED,
                                 listings := (listings s)(tokenId := \<lparr>price_opt = 0, seller_opt = 0\<rparr>),
                                 tokenApprovals := (tokenApprovals s)(tokenId := 0),
                                 erc721_owners := (erc721_owners s)(tokenId := msg_sender m),
                                 pendingWithdrawals := (pendingWithdrawals s)
                                   (seller_opt (listings s tokenId) :=
                                      pendingWithdrawals s (seller_opt (listings s tokenId))
                                        + ucast (price_opt (listings s tokenId)))\<rparr>)]
                       else [])
                    @ [Emitted (NFTSold tokenId (msg_sender m) (seller_opt (listings s tokenId))
                                  (ucast (price_opt (listings s tokenId)))),
                       Stored Status]),
           s\<lparr>eth_balance := eth_balance s + unat (ucast (price_opt (listings s tokenId)) :: uint256),
             listings := (listings s)(tokenId := \<lparr>price_opt = 0, seller_opt = 0\<rparr>),
             tokenApprovals := (tokenApprovals s)(tokenId := 0),
             erc721_owners := (erc721_owners s)(tokenId := msg_sender m),
             pendingWithdrawals := (pendingWithdrawals s)
               (seller_opt (listings s tokenId) :=
                  pendingWithdrawals s (seller_opt (listings s tokenId)) + ucast (price_opt (listings s tokenId))),
             guard_status := NOT_ENTERED\<rparr>))"
  by (simp add: stmt_defs buyNFT_opt_def erc721_transfer_def update_opt_def erc721_update_def Let_def
        word_greater_zero_iff unat_pay4 unat_pay5)

subsection \<open>Conversions between \<^verbatim>\<open>uint96\<close> and \<^verbatim>\<open>uint256\<close>\<close>

lemma unat_ucast96: "unat (ucast (x :: uint96) :: uint256) = unat x"
proof -
  have "unat x < 2 ^ 96" using unsigned_less [of x] by simp
  then have "unat x < 2 ^ 256" by simp
  then show ?thesis
    by (simp add: unsigned_ucast_eq take_bit_nat_eq_self_iff)
qed

lemma unat_down96: "x \<le> uint96_max \<Longrightarrow> unat (ucast (x :: uint256) :: uint96) = unat x"
proof -
  assume "x \<le> uint96_max"
  then have "unat x \<le> unat (2 ^ 96 - 1 :: uint256)"
    by (simp add: uint96_max_def word_le_nat_alt)
  then have "unat x < 2 ^ 96" by simp
  then show ?thesis
    by (simp add: unsigned_ucast_eq take_bit_nat_eq_self_iff)
qed

lemma ucast96_id: "x \<le> uint96_max \<Longrightarrow> ucast (ucast x :: uint96) = (x :: uint256)"
  by (simp add: word_unat_eq_iff unat_ucast96 unat_down96)

lemma ucast96_le: "ucast (x :: uint96) \<le> uint96_max"
proof -
  have "unat x < 2 ^ 96" using unsigned_less [of x] by simp
  then show ?thesis
    by (simp add: uint96_max_def word_le_nat_alt unat_ucast96)
qed

lemma ucast96_down_up: "ucast (ucast (x :: uint96) :: uint256) = x"
  by (simp add: word_unat_eq_iff unat_down96 ucast96_le unat_ucast96)

lemma ucast96_eq_0: "(ucast (x :: uint96) :: uint256) = 0 \<longleftrightarrow> x = 0"
  by (simp add: word_unat_eq_iff unat_ucast96)

lemmas transact_simps = transact_def transact_opt_def

subsection \<open>Failure is all-or-nothing\<close>

lemma buy_transfer_fails:
  assumes "guard_status s \<noteq> ENTERED" and "isActive (listings s t)" and "price (listings s t) \<le> msg_value m"
      and "erc721_owners s t \<noteq> seller (listings s t)"
  shows "\<not> is_success (fst (transact ev s (BuyNFT m t)))"
    and "\<not> isActive (listings (fst (snd (buyNFT ev m t (s, [])))) t)"
  using assms
  by (simp_all add: transact_def execute_buyNFT)
     (simp add: stmt_defs buyNFT_def erc721_transfer_def update_def erc721_update_def)

lemma buy_transfer_fails_opt:
  assumes "guard_status s \<noteq> ENTERED" and "price_opt (listings s t) \<noteq> 0"
      and "ucast (price_opt (listings s t)) \<le> msg_value m"
      and "erc721_owners s t \<noteq> seller_opt (listings s t)"
  shows "\<not> is_success (fst (transact_opt ev s (BuyNFT m t)))"
    and "price_opt (listings (fst (snd (buyNFT_opt ev m t (s, [])))) t) = 0"
  using assms
  by (simp_all add: transact_opt_def execute_buyNFT_opt)
     (simp add: stmt_defs buyNFT_opt_def erc721_transfer_def update_opt_def erc721_update_def word_greater_zero_iff)

text \<open>
  C2. Every call that ends in an error leaves the whole storage (listings, escrow balances,
  fee, token ownership and all the rest) exactly as it was before the call, in both
  contracts and for every external function. The body of a function may have written to
  storage before it fails: a buy whose ownership transfer fails has already cleared the
  listing, and the revert discards that write.
\<close>

theorem revert_restores_storage:
  "(fst (transact ev s c) = Reverted e \<longrightarrow> snd (transact ev s c) = s)
   \<and> (fst (transact_opt ev s' c) = Reverted e \<longrightarrow> snd (transact_opt ev s' c) = s')
   \<and> (guard_status s \<noteq> ENTERED \<and> isActive (listings s t) \<and> price (listings s t) \<le> msg_value m
        \<and> erc721_owners s t \<noteq> seller (listings s t)
      \<longrightarrow> \<not> is_success (fst (transact ev s (BuyNFT m t)))
          \<and> snd (transact ev s (BuyNFT m t)) = s
          \<and> \<not> isActive (listings (fst (snd (buyNFT ev m t (s, [])))) t))
   \<and> (guard_status s' \<noteq> ENTERED \<and> price_opt (listings s' t) \<noteq> 0
        \<and> ucast (price_opt (listings s' t)) \<le> msg_value m
        \<and> erc721_owners s' t \<noteq> seller_opt (listings s' t)
      \<longrightarrow> \<not> is_success (fst (transact_opt ev s' (BuyNFT m t)))
          \<and> snd (transact_opt ev s' (BuyNFT m t)) = s'
          \<and> price_opt (listings (fst (snd (buyNFT_opt ev m t (s', [])))) t) = 0)"
proof -
  have 1: "\<not> is_success (fst (transact ev s (BuyNFT m t))) \<Longrightarrow> snd (transact ev s (BuyNFT m t)) = s"
    by (cases "fst (transact ev s (BuyNFT m t))") (auto simp: transact_def intro: execute_reverted)
  have 2: "\<not> is_success (fst (transact_opt ev s' (BuyNFT m t))) \<Longrightarrow> snd (transact_opt ev s' (BuyNFT m t)) = s'"
    by (cases "fst (transact_opt ev s' (BuyNFT m t))") (auto simp: transact_opt_def intro: execute_reverted)
  show ?thesis
    using buy_transfer_fails [of s t m ev] buy_transfer_fails_opt [of s' t m ev] 1 2
    by (auto simp: transact_simps intro: execute_reverted)
qed

theorem revert_restores_storage_witness:
  "fst (transact env_ok stale (BuyNFT \<lparr>msg_sender = 4, msg_value = 5\<rparr> 0)) = Reverted (ERC721IncorrectOwner 2 0 3)
   \<and> snd (transact env_ok stale (BuyNFT \<lparr>msg_sender = 4, msg_value = 5\<rparr> 0)) = stale
   \<and> isActive (listings stale 0)
   \<and> \<not> isActive (listings (fst (snd (buyNFT env_ok \<lparr>msg_sender = 4, msg_value = 5\<rparr> 0 (stale, [])))) 0)
   \<and> fst (transact_opt env_ok stale_opt (BuyNFT \<lparr>msg_sender = 4, msg_value = 5\<rparr> 0)) = Reverted (ERC721IncorrectOwner 2 0 3)
   \<and> snd (transact_opt env_ok stale_opt (BuyNFT \<lparr>msg_sender = 4, msg_value = 5\<rparr> 0)) = stale_opt
   \<and> price_opt (listings stale_opt 0) = 5
   \<and> price_opt (listings (fst (snd (buyNFT_opt env_ok \<lparr>msg_sender = 4, msg_value = 5\<rparr> 0 (stale_opt, [])))) 0) = 0"
proof -
  have b: "fst (transact env_ok stale (BuyNFT \<lparr>msg_sender = 4, msg_value = 5\<rparr> 0)) = Reverted (ERC721IncorrectOwner 2 0 3)"
    by (simp add: transact_simps execute_buyNFT stale_def init_def)
  have o: "fst (transact_opt env_ok stale_opt (BuyNFT \<lparr>msg_sender = 4, msg_value = 5\<rparr> 0)) = Reverted (ERC721IncorrectOwner 2 0 3)"
    by (simp add: transact_simps execute_buyNFT_opt stale_opt_def init_opt_def)
  have p: "\<not> isActive (listings (fst (snd (buyNFT env_ok \<lparr>msg_sender = 4, msg_value = 5\<rparr> 0 (stale, [])))) 0)"
    by (simp add: stmt_defs buyNFT_def erc721_transfer_def update_def erc721_update_def stale_def init_def)
  have q: "price_opt (listings (fst (snd (buyNFT_opt env_ok \<lparr>msg_sender = 4, msg_value = 5\<rparr> 0 (stale_opt, [])))) 0) = 0"
    by (simp add: stmt_defs buyNFT_opt_def erc721_transfer_def update_opt_def erc721_update_def stale_opt_def init_opt_def)
  show ?thesis
    using revert_restores_storage [where ev = env_ok and s = stale and s' = stale_opt
            and c = "BuyNFT \<lparr>msg_sender = 4, msg_value = 5\<rparr> 0" and e = "ERC721IncorrectOwner 2 0 3"
            and t = 0 and m = "\<lparr>msg_sender = 4, msg_value = 5\<rparr>"] b o p q
    by (simp add: stale_def stale_opt_def init_def init_opt_def)
qed

subsection \<open>The listing fee\<close>

text \<open>
  C8. \<^verbatim>\<open>setListingFee\<close> succeeds exactly when the caller is the operator (the owner of the
  contract) and the new fee is within the bound of the fee variable; it then replaces the
  fee and changes nothing else. Any other caller fails with
  \<^verbatim>\<open>OwnableUnauthorizedAccount\<close>; the operator with a fee above the bound fails with
  "Fee too high". In the baseline contract the fee is a \<^verbatim>\<open>uint256\<close>, so every argument is
  within the bound; in the optimised contract the bound is the largest \<^verbatim>\<open>uint96\<close>.
\<close>

theorem setListingFee_operator_only:
  "(is_success (fst (transact ev s (SetListingFee caller newFee))) \<longleftrightarrow> caller = ownable_owner s)
   \<and> (caller = ownable_owner s \<longrightarrow>
        snd (transact ev s (SetListingFee caller newFee)) = s\<lparr>listingFee := newFee\<rparr>)
   \<and> (caller \<noteq> ownable_owner s \<longrightarrow>
        transact ev s (SetListingFee caller newFee) = (Reverted (OwnableUnauthorizedAccount caller), s))
   \<and> (is_success (fst (transact_opt ev s' (SetListingFee caller newFee)))
        \<longleftrightarrow> caller = ownable_owner s' \<and> newFee \<le> uint96_max)
   \<and> (caller = ownable_owner s' \<and> newFee \<le> uint96_max \<longrightarrow>
        snd (transact_opt ev s' (SetListingFee caller newFee)) = s'\<lparr>listingFee := ucast newFee\<rparr>
        \<and> (ucast (ucast newFee :: uint96) :: uint256) = newFee)
   \<and> (caller \<noteq> ownable_owner s' \<longrightarrow>
        transact_opt ev s' (SetListingFee caller newFee) = (Reverted (OwnableUnauthorizedAccount caller), s'))
   \<and> (caller = ownable_owner s' \<and> \<not> newFee \<le> uint96_max \<longrightarrow>
        transact_opt ev s' (SetListingFee caller newFee) = (Reverted (Error ''Fee too high''), s'))"
  by (simp add: transact_simps execute_setListingFee execute_setListingFee_opt ucast96_id)

theorem setListingFee_operator_only_witness:
  "is_success (fst (transact env_ok (init 1) (SetListingFee 1 5)))
   \<and> listingFee (snd (transact env_ok (init 1) (SetListingFee 1 5))) = 5
   \<and> pendingWithdrawals (snd (transact env_ok (init 1) (SetListingFee 1 5))) = pendingWithdrawals (init 1)
   \<and> transact env_ok (init 1) (SetListingFee 2 5) = (Reverted (OwnableUnauthorizedAccount 2), init 1)
   \<and> is_success (fst (transact_opt env_ok (init_opt 1) (SetListingFee 1 5)))
   \<and> listingFee (snd (transact_opt env_ok (init_opt 1) (SetListingFee 1 5))) = 5
   \<and> transact_opt env_ok (init_opt 1) (SetListingFee 2 5) = (Reverted (OwnableUnauthorizedAccount 2), init_opt 1)
   \<and> transact_opt env_ok (init_opt 1) (SetListingFee 1 (2 ^ 96)) = (Reverted (Error ''Fee too high''), init_opt 1)"
  using setListingFee_operator_only [of env_ok "init 1" 1 5 "init_opt 1"]
        setListingFee_operator_only [of env_ok "init 1" 2 5 "init_opt 1"]
        setListingFee_operator_only [of env_ok "init 1" 1 "2 ^ 96" "init_opt 1"]
  by (simp add: init_def init_opt_def uint96_max_def)

subsection \<open>The escrow ledger\<close>

lemma sum_fun_upd:
  fixes f :: "'a::finite \<Rightarrow> nat"
  shows "(\<Sum>y\<in>UNIV. (f(a := x)) y) + f a = (\<Sum>y\<in>UNIV. f y) + x"
proof -
  have 1: "(\<Sum>y\<in>UNIV. (f(a := x)) y) = x + (\<Sum>y\<in>UNIV - {a}. (f(a := x)) y)"
    using sum.remove [of UNIV a "f(a := x)"] by simp
  have 2: "(\<Sum>y\<in>UNIV. f y) = f a + (\<Sum>y\<in>UNIV - {a}. f y)"
    using sum.remove [of UNIV a f] by simp
  have 3: "(\<Sum>y\<in>UNIV - {a}. (f(a := x)) y) = (\<Sum>y\<in>UNIV - {a}. f y)"
    by (rule sum.cong) auto
  show ?thesis using 1 2 3 by simp
qed

lemma balance_le_sum: "unat (f a) \<le> sum_balances f"
  unfolding sum_balances_def
  by (rule member_le_sum) auto

lemma sum_balances_upd: "sum_balances (f(a := x)) = sum_balances f - unat (f a) + unat x"
proof -
  have "sum_balances (f(a := x)) = (\<Sum>b\<in>UNIV. ((\<lambda>b. unat (f b))(a := unat x)) b)"
    unfolding sum_balances_def by (rule sum.cong) auto
  then have "sum_balances (f(a := x)) + unat (f a) = sum_balances f + unat x"
    using sum_fun_upd [of "\<lambda>b. unat (f b)" a "unat x"] by (simp add: sum_balances_def)
  then show ?thesis using balance_le_sum [of f a] by simp
qed

lemma sum_balances_zero: "sum_balances (\<lambda>_. 0) = 0"
  by (simp add: sum_balances_def)

lemmas execute_base = execute_mintNFT execute_listNFT execute_buyNFT execute_cancelListing
        execute_withdrawFunds execute_setListingFee execute_transferFrom execute_safeTransferFrom
        execute_approve execute_setApprovalForAll execute_transferOwnership execute_renounceOwnership

lemmas execute_opt = execute_mintNFT_opt execute_listNFT_opt execute_buyNFT_opt execute_cancelListing_opt
        execute_withdrawFunds execute_setListingFee_opt execute_transferFrom_opt execute_safeTransferFrom_opt
        execute_approve execute_setApprovalForAll execute_transferOwnership execute_renounceOwnership

lemma guard_step:
  "guard_status s = NOT_ENTERED \<Longrightarrow> guard_status (snd (transact ev s c)) = NOT_ENTERED"
  by (cases c) (simp_all add: transact_def execute_base)

lemma guard_step_opt:
  "guard_status s = NOT_ENTERED \<Longrightarrow> guard_status (snd (transact_opt ev s c)) = NOT_ENTERED"
  by (cases c) (simp_all add: transact_opt_def execute_opt)

lemma unat_credit:
  "unat (x :: uint256) + unat y < 2 ^ 256 \<Longrightarrow> unat (x + y) = unat x + unat y"
  using unat_add_lem [of x y] by simp

lemma escrow_step:
  "escrow_total (snd (transact ev s c)) + sent Payout (log_of (fst (transact ev s c)))
     = escrow_total s
       + (if is_buy c \<and> is_success (fst (transact ev s c))
          then paid_in c - sent Refund (log_of (fst (transact ev s c))) else 0)"
proof (cases c)
  case (BuyNFT m t)
  show ?thesis
    using balance_le_sum [of "pendingWithdrawals s" "seller (listings s t)"]
    by (simp add: BuyNFT transact_def execute_buyNFT escrow_total_def sum_balances_upd unat_credit
          unat_sub word_le_nat_alt word_less_nat_alt)
next
  case (WithdrawFunds a)
  show ?thesis
    using balance_le_sum [of "pendingWithdrawals s" a]
    by (simp add: WithdrawFunds transact_def execute_withdrawFunds escrow_total_def sum_balances_upd)
qed (simp_all add: transact_def execute_base escrow_total_def)

lemma fee_step:
  "sent Fee (log_of (fst (transact ev s c)))
     = (if is_list c \<and> is_success (fst (transact ev s c))
        then paid_in c - sent Refund (log_of (fst (transact ev s c))) else 0)"
proof (cases c)
  case (ListNFT m t p)
  show ?thesis
    by (simp add: ListNFT transact_def execute_listNFT unat_sub word_le_nat_alt word_less_nat_alt)
qed (simp_all add: transact_def execute_base)

lemma balance_step:
  "eth_balance (snd (transact ev s c)) + escrow_total s
     = eth_balance s + escrow_total (snd (transact ev s c))"
proof (cases c)
  case (BuyNFT m t)
  show ?thesis
    using balance_le_sum [of "pendingWithdrawals s" "seller (listings s t)"]
    by (simp add: BuyNFT transact_def execute_buyNFT escrow_total_def sum_balances_upd unat_credit)
next
  case (WithdrawFunds a)
  show ?thesis
    using balance_le_sum [of "pendingWithdrawals s" a]
    by (simp add: WithdrawFunds transact_def execute_withdrawFunds escrow_total_def sum_balances_upd)
qed (simp_all add: transact_def execute_base escrow_total_def)

lemma conservation_from:
  "escrow_total (run s txs) + withdrawn (history s txs) + fees_collected (history s txs)
     = escrow_total s + prices_received (history s txs) + fees_paid_in (history s txs)"
proof (induction txs arbitrary: s)
  case Nil
  show ?case by simp
next
  case (Cons tx txs)
  show ?case
    using Cons.IH [of "snd (transact (fst tx) s (snd tx))"]
          escrow_step [of "fst tx" s "snd tx"] fee_step [of "fst tx" s "snd tx"]
    by simp
qed

lemma balance_run:
  "eth_balance (run s txs) + escrow_total s = eth_balance s + escrow_total (run s txs)"
proof (induction txs arbitrary: s)
  case Nil
  show ?case by simp
next
  case (Cons tx txs)
  show ?case
    using Cons.IH [of "snd (transact (fst tx) s (snd tx))"] balance_step [of "fst tx" s "snd tx"]
    by simp
qed

lemma escrow_total_init: "escrow_total (init d) = 0"
  by (simp add: escrow_total_def init_def sum_balances_zero)

text \<open>
  C3 (conservation, baseline contract). After any history from deployment, the escrow
  balances, the amounts paid out by withdrawals and the listing fees passed on to the
  operator add up to the prices kept from buys and the fees kept from listings. What a buy
  or a listing keeps is its payment less the refund of the excess, which is sent back in
  the same call and never reaches escrow. The contract holds exactly the escrow.
\<close>

theorem conservation:
  "escrow_total (run (init d) txs) + withdrawn (history (init d) txs) + fees_collected (history (init d) txs)
     = prices_received (history (init d) txs) + fees_paid_in (history (init d) txs)
   \<and> eth_balance (run (init d) txs) = escrow_total (run (init d) txs)"
  using conservation_from [of "init d" txs] balance_run [of "init d" txs]
  by (simp add: escrow_total_init) (simp add: init_def)

subsection \<open>Listings and ownership\<close>

lemma coherent_step: "coherent s \<Longrightarrow> coherent (snd (transact ev s c))"
  by (cases c) (auto simp: transact_def execute_base coherent_def)

lemma coherent_opt_step: "coherent_opt s \<Longrightarrow> coherent_opt (snd (transact_opt ev s c))"
  by (cases c) (auto simp: transact_opt_def execute_opt coherent_opt_def)

lemma run_guard: "guard_status s = NOT_ENTERED \<Longrightarrow> guard_status (run s txs) = NOT_ENTERED"
  by (induction txs arbitrary: s) (simp_all add: guard_step)

lemma run_opt_guard: "guard_status s = NOT_ENTERED \<Longrightarrow> guard_status (run_opt s txs) = NOT_ENTERED"
  by (induction txs arbitrary: s) (simp_all add: guard_step_opt)

lemma run_coherent: "coherent s \<Longrightarrow> coherent (run s txs)"
  by (induction txs arbitrary: s) (simp_all add: coherent_step)

lemma run_opt_coherent: "coherent_opt s \<Longrightarrow> coherent_opt (run_opt s txs)"
  by (induction txs arbitrary: s) (simp_all add: coherent_opt_step)

lemma reach_guard: "guard_status (run (init d) txs) = NOT_ENTERED"
  by (rule run_guard) (simp add: init_def)

lemma reach_opt_guard: "guard_status (run_opt (init_opt d) txs) = NOT_ENTERED"
  by (rule run_opt_guard) (simp add: init_opt_def)

lemma reach_coherent: "coherent (run (init d) txs)"
  by (rule run_coherent) (simp add: init_def coherent_def)

lemma reach_opt_coherent: "coherent_opt (run_opt (init_opt d) txs)"
  by (rule run_opt_coherent) (simp add: init_opt_def coherent_opt_def)

text \<open>A change of owner leaves the token unlisted.\<close>

lemma owner_change_unlists:
  "coherent s \<Longrightarrow> erc721_owners (snd (transact ev s c)) t \<noteq> erc721_owners s t \<Longrightarrow>
   \<not> isActive (listings (snd (transact ev s c)) t)
   \<and> (isActive (listings s t) \<longrightarrow> Stored (Listings t) \<in> set (log_of (fst (transact ev s c))))"
  by (cases c) (auto simp: transact_def execute_base coherent_def split: if_splits)

lemma owner_change_unlists_opt:
  "coherent_opt s \<Longrightarrow> erc721_owners (snd (transact_opt ev s c)) t \<noteq> erc721_owners s t \<Longrightarrow>
   price_opt (listings (snd (transact_opt ev s c)) t) = 0
   \<and> (price_opt (listings s t) \<noteq> 0 \<longrightarrow> Stored (Listings t) \<in> set (log_of (fst (transact_opt ev s c))))"
  by (cases c) (auto simp: transact_opt_def execute_opt coherent_opt_def split: if_splits)

lemma buy_unlisted:
  "guard_status s = NOT_ENTERED \<Longrightarrow> \<not> isActive (listings s t) \<Longrightarrow>
   transact ev s (BuyNFT m t) = (Reverted (Error ''NFT not listed''), s)"
  by (simp add: transact_def execute_buyNFT)

lemma buy_unlisted_opt:
  "guard_status s = NOT_ENTERED \<Longrightarrow> price_opt (listings s t) = 0 \<Longrightarrow>
   transact_opt ev s (BuyNFT m t) = (Reverted (Error ''NFT not listed''), s)"
  by (simp add: transact_opt_def execute_buyNFT_opt)

lemmas eval_simps = transact_def transact_opt_def execute_base execute_mintNFT_opt execute_listNFT_opt
  execute_buyNFT_opt execute_cancelListing_opt execute_setListingFee_opt execute_transferFrom_opt
  execute_safeTransferFrom_opt init_def init_opt_def
  env_ok_def env_rejecting_def listing_txs_def sale_txs_def demo_txs_def

text \<open>
  C6. In every storage reachable from deployment, an active listing is in the name of the
  token's current owner. Whenever a call changes the owner of a token (a transfer, a safe
  transfer, a mint or a buy), the token is unlisted afterwards: \<^verbatim>\<open>getListing\<close> reports
  it inactive, a listing that was active has been overwritten by the call (by the
  \<^verbatim>\<open>_update\<close> hook, or by the buy itself), and a subsequent buy fails with
  "NFT not listed". Both contracts.
\<close>

theorem transfer_hook_keeps_listings_coherent:
  assumes "s = run (init d) txs" and "s' = snd (transact ev s c)"
      and "so = run_opt (init_opt d') txs'" and "so' = snd (transact_opt ev so c')"
  shows "(\<forall>t. isActive (getListing s t) \<longrightarrow> seller (getListing s t) = erc721_owners s t)
     \<and> (\<forall>t. erc721_owners s' t \<noteq> erc721_owners s t \<longrightarrow>
           \<not> isActive (getListing s' t)
           \<and> (isActive (getListing s t) \<longrightarrow> Stored (Listings t) \<in> set (log_of (fst (transact ev s c))))
           \<and> (\<forall>ev' m. fst (transact ev' s' (BuyNFT m t)) = Reverted (Error ''NFT not listed'')))
     \<and> (\<forall>t. snd (snd (getListing_opt so t)) \<longrightarrow> fst (snd (getListing_opt so t)) = erc721_owners so t)
     \<and> (\<forall>t. erc721_owners so' t \<noteq> erc721_owners so t \<longrightarrow>
           \<not> snd (snd (getListing_opt so' t))
           \<and> (snd (snd (getListing_opt so t)) \<longrightarrow> Stored (Listings t) \<in> set (log_of (fst (transact_opt ev so c'))))
           \<and> (\<forall>ev' m. fst (transact_opt ev' so' (BuyNFT m t)) = Reverted (Error ''NFT not listed'')))"
proof -
  have c: "coherent s" and g: "guard_status s' = NOT_ENTERED"
    using assms(1,2) by (simp_all add: reach_coherent reach_guard guard_step)
  have co: "coherent_opt so" and go: "guard_status so' = NOT_ENTERED"
    using assms(3,4) by (simp_all add: reach_opt_coherent reach_opt_guard guard_step_opt)
  have 1: "\<forall>t. isActive (getListing s t) \<longrightarrow> seller (getListing s t) = erc721_owners s t"
    using c by (simp add: coherent_def getListing_def)
  have 2: "\<forall>t. erc721_owners s' t \<noteq> erc721_owners s t \<longrightarrow>
           \<not> isActive (getListing s' t)
           \<and> (isActive (getListing s t) \<longrightarrow> Stored (Listings t) \<in> set (log_of (fst (transact ev s c))))
           \<and> (\<forall>ev' m. fst (transact ev' s' (BuyNFT m t)) = Reverted (Error ''NFT not listed''))"
    using owner_change_unlists [OF c, of ev c] g
    by (auto simp: assms(2) getListing_def buy_unlisted)
  have 3: "\<forall>t. snd (snd (getListing_opt so t)) \<longrightarrow> fst (snd (getListing_opt so t)) = erc721_owners so t"
    using co by (simp add: coherent_opt_def getListing_opt_def Let_def word_greater_zero_iff)
  have 4: "\<forall>t. erc721_owners so' t \<noteq> erc721_owners so t \<longrightarrow>
           \<not> snd (snd (getListing_opt so' t))
           \<and> (snd (snd (getListing_opt so t)) \<longrightarrow> Stored (Listings t) \<in> set (log_of (fst (transact_opt ev so c'))))
           \<and> (\<forall>ev' m. fst (transact_opt ev' so' (BuyNFT m t)) = Reverted (Error ''NFT not listed''))"
    using owner_change_unlists_opt [OF co, of ev c'] go
    by (auto simp: assms(4) getListing_opt_def Let_def buy_unlisted_opt word_greater_zero_iff)
  show ?thesis using 1 2 3 4 by blast
qed

theorem transfer_hook_keeps_listings_coherent_witness:
  "isActive (getListing (run (init 1) listing_txs) 0)
   \<and> seller (getListing (run (init 1) listing_txs) 0) = erc721_owners (run (init 1) listing_txs) 0
   \<and> erc721_owners (snd (transact env_ok (run (init 1) listing_txs) (TransferFrom 2 2 3 0))) 0 = 3
   \<and> erc721_owners (run (init 1) listing_txs) 0 = 2
   \<and> \<not> isActive (getListing (snd (transact env_ok (run (init 1) listing_txs) (TransferFrom 2 2 3 0))) 0)
   \<and> Stored (Listings 0) \<in> set (log_of (fst (transact env_ok (run (init 1) listing_txs) (TransferFrom 2 2 3 0))))
   \<and> fst (transact env_ok (snd (transact env_ok (run (init 1) listing_txs) (TransferFrom 2 2 3 0)))
            (BuyNFT \<lparr>msg_sender = 3, msg_value = 5\<rparr> 0)) = Reverted (Error ''NFT not listed'')
   \<and> snd (snd (getListing_opt (run_opt (init_opt 1) listing_txs) 0))
   \<and> fst (snd (getListing_opt (run_opt (init_opt 1) listing_txs) 0)) = erc721_owners (run_opt (init_opt 1) listing_txs) 0
   \<and> \<not> snd (snd (getListing_opt (snd (transact_opt env_ok (run_opt (init_opt 1) listing_txs) (TransferFrom 2 2 3 0))) 0))
   \<and> fst (transact_opt env_ok (snd (transact_opt env_ok (run_opt (init_opt 1) listing_txs) (TransferFrom 2 2 3 0)))
            (BuyNFT \<lparr>msg_sender = 3, msg_value = 5\<rparr> 0)) = Reverted (Error ''NFT not listed'')"
proof -
  have a: "isActive (getListing (run (init 1) listing_txs) 0)"
    by (simp add: eval_simps getListing_def)
  have b: "erc721_owners (snd (transact env_ok (run (init 1) listing_txs) (TransferFrom 2 2 3 0))) 0 = 3"
          "erc721_owners (run (init 1) listing_txs) 0 = 2"
    by (simp_all add: eval_simps isAuthorized_def)
  have ao: "snd (snd (getListing_opt (run_opt (init_opt 1) listing_txs) 0))"
    by (simp add: eval_simps getListing_opt_def Let_def uint96_max_def)
  have bo: "erc721_owners (snd (transact_opt env_ok (run_opt (init_opt 1) listing_txs) (TransferFrom 2 2 3 0))) 0 = 3"
          "erc721_owners (run_opt (init_opt 1) listing_txs) 0 = 2"
    by (simp_all add: eval_simps isAuthorized_def uint96_max_def)
  show ?thesis
    using transfer_hook_keeps_listings_coherent [OF refl refl refl refl,
            of 1 listing_txs env_ok "TransferFrom 2 2 3 0" 1 listing_txs "TransferFrom 2 2 3 0"]
          a b ao bo
    by simp
qed

subsection \<open>Buying\<close>

lemma outcome_collapse: "is_success out \<Longrightarrow> out = Success (log_of out)"
  by (cases out) simp_all

lemma transact_collapse:
  "is_success (fst (transact ev s c)) \<Longrightarrow>
   transact ev s c = (Success (log_of (fst (transact ev s c))), snd (transact ev s c))"
  using outcome_collapse [of "fst (transact ev s c)"] by (metis prod.collapse)

lemma transact_opt_collapse:
  "is_success (fst (transact_opt ev s c)) \<Longrightarrow>
   transact_opt ev s c = (Success (log_of (fst (transact_opt ev s c))), snd (transact_opt ev s c))"
  using outcome_collapse [of "fst (transact_opt ev s c)"] by (metis prod.collapse)

lemma unlisted_step:
  "\<not> isActive (listings s t) \<Longrightarrow> \<not> (lists_token t c \<and> is_success (fst (transact ev s c))) \<Longrightarrow>
   \<not> isActive (listings (snd (transact ev s c)) t)"
  by (cases c) (auto simp: transact_def execute_base split: if_splits)

lemma unlisted_step_opt:
  "price_opt (listings s t) = 0 \<Longrightarrow> \<not> (lists_token t c \<and> is_success (fst (transact_opt ev s c))) \<Longrightarrow>
   price_opt (listings (snd (transact_opt ev s c)) t) = 0"
  by (cases c) (auto simp: transact_opt_def execute_opt split: if_splits)

lemma unlisted_run:
  "\<not> isActive (listings s t) \<Longrightarrow>
   \<forall>x\<in>set (history s txs). \<not> (lists_token t (fst x) \<and> is_success (snd x)) \<Longrightarrow>
   \<not> isActive (listings (run s txs) t)"
proof (induction txs arbitrary: s)
  case Nil
  then show ?case by simp
next
  case (Cons tx txs)
  have "\<not> isActive (listings (snd (transact (fst tx) s (snd tx))) t)"
    using Cons.prems by (intro unlisted_step) simp_all
  then show ?case using Cons.IH Cons.prems(2) by simp
qed

lemma unlisted_run_opt:
  "price_opt (listings s t) = 0 \<Longrightarrow>
   \<forall>x\<in>set (history_opt s txs). \<not> (lists_token t (fst x) \<and> is_success (snd x)) \<Longrightarrow>
   price_opt (listings (run_opt s txs) t) = 0"
proof (induction txs arbitrary: s)
  case Nil
  then show ?case by simp
next
  case (Cons tx txs)
  have "price_opt (listings (snd (transact_opt (fst tx) s (snd tx))) t) = 0"
    using Cons.prems by (intro unlisted_step_opt) simp_all
  then show ?case using Cons.IH Cons.prems(2) by simp
qed

lemma buy_success:
  assumes "transact ev s (BuyNFT m t) = (Success l, s')"
  shows "guard_status s' = NOT_ENTERED" and "\<not> isActive (listings s' t)"
    and "\<forall>snap\<in>set (snapshots l). guard_status snap = ENTERED \<and> \<not> isActive (listings snap t)
            \<and> erc721_owners snap t = msg_sender m
            \<and> pendingWithdrawals snap (seller (listings s t))
                = pendingWithdrawals s (seller (listings s t)) + price (listings s t)"
    and "map erase l =
          [Stored Status, Stored (Listings t), Stored (TokenApprovals t), Stored (Owners t),
           Emitted (Transfer (seller (listings s t)) (msg_sender m) t),
           Stored (PendingWithdrawals (seller (listings s t)))]
          @ (if price (listings s t) < msg_value m
             then [Sent Refund (msg_sender m) (msg_value m - price (listings s t)) ()] else [])
          @ [Emitted (NFTSold t (msg_sender m) (seller (listings s t)) (price (listings s t))),
             Stored Status]"
  using assms by (auto simp: transact_def execute_buyNFT split: if_splits)

lemma buy_success_opt:
  assumes "transact_opt ev s (BuyNFT m t) = (Success l, s')"
  shows "guard_status s' = NOT_ENTERED" and "price_opt (listings s' t) = 0"
    and "\<forall>snap\<in>set (snapshots l). guard_status snap = ENTERED \<and> price_opt (listings snap t) = 0
            \<and> erc721_owners snap t = msg_sender m
            \<and> pendingWithdrawals snap (seller_opt (listings s t))
                = pendingWithdrawals s (seller_opt (listings s t)) + ucast (price_opt (listings s t))"
    and "map erase l =
          [Stored Status, Stored (Listings t), Stored (TokenApprovals t), Stored (Owners t),
           Emitted (Transfer (seller_opt (listings s t)) (msg_sender m) t),
           Stored (PendingWithdrawals (seller_opt (listings s t)))]
          @ (if msg_value m - ucast (price_opt (listings s t)) \<noteq> 0
             then [Sent Refund (msg_sender m) (msg_value m - ucast (price_opt (listings s t))) ()] else [])
          @ [Emitted (NFTSold t (msg_sender m) (seller_opt (listings s t)) (ucast (price_opt (listings s t)))),
             Stored Status]"
  using assms by (auto simp: transact_opt_def execute_buyNFT_opt split: if_splits)

lemma entered_rejects_buy:
  "guard_status s = ENTERED \<Longrightarrow> fst (transact ev s (BuyNFT m t)) = Reverted ReentrancyGuardReentrantCall"
  by (simp add: transact_def execute_buyNFT)

lemma entered_rejects_buy_opt:
  "guard_status s = ENTERED \<Longrightarrow> fst (transact_opt ev s (BuyNFT m t)) = Reverted ReentrancyGuardReentrantCall"
  by (simp add: transact_opt_def execute_buyNFT_opt)

text \<open>
  C1, as amended. After a successful buy of token \<open>t\<close>, every later buy of \<open>t\<close> fails
  with "NFT not listed", whatever calls come in between, until a listing of \<open>t\<close> succeeds
  again. A buy (of any token) issued re-entrantly, from the recipient of the refund while
  the first buy is still running, is rejected by the re-entrancy guard with
  \<^verbatim>\<open>ReentrancyGuardReentrantCall\<close>. Both contracts.
\<close>

theorem no_double_sale:
  "(transact ev s (BuyNFT m t) = (Success l, s') \<longrightarrow>
      (\<forall>txs ev' m'. (\<forall>x\<in>set (history s' txs). \<not> (lists_token t (fst x) \<and> is_success (snd x))) \<longrightarrow>
          fst (transact ev' (run s' txs) (BuyNFT m' t)) = Reverted (Error ''NFT not listed''))
      \<and> (\<forall>ev' m' t'. \<forall>out\<in>set (reenter ev' (BuyNFT m' t') l). out = Reverted ReentrancyGuardReentrantCall))
   \<and> (transact_opt ev so (BuyNFT m t) = (Success lo, so') \<longrightarrow>
      (\<forall>txs ev' m'. (\<forall>x\<in>set (history_opt so' txs). \<not> (lists_token t (fst x) \<and> is_success (snd x))) \<longrightarrow>
          fst (transact_opt ev' (run_opt so' txs) (BuyNFT m' t)) = Reverted (Error ''NFT not listed''))
      \<and> (\<forall>ev' m' t'. \<forall>out\<in>set (reenter_opt ev' (BuyNFT m' t') lo). out = Reverted ReentrancyGuardReentrantCall))"
proof (intro conjI impI allI ballI)
  fix txs ev' m'
  assume a: "transact ev s (BuyNFT m t) = (Success l, s')"
     and h: "\<forall>x\<in>set (history s' txs). \<not> (lists_token t (fst x) \<and> is_success (snd x))"
  have "guard_status (run s' txs) = NOT_ENTERED"
    using buy_success(1) [OF a] by (rule run_guard)
  moreover have "\<not> isActive (listings (run s' txs) t)"
    using buy_success(2) [OF a] h by (rule unlisted_run)
  ultimately show "fst (transact ev' (run s' txs) (BuyNFT m' t)) = Reverted (Error ''NFT not listed'')"
    by (simp add: buy_unlisted)
next
  fix ev' m' t' out
  assume a: "transact ev s (BuyNFT m t) = (Success l, s')"
     and o: "out \<in> set (reenter ev' (BuyNFT m' t') l)"
  show "out = Reverted ReentrancyGuardReentrantCall"
    using o buy_success(3) [OF a] by (auto simp: reenter_def entered_rejects_buy)
next
  fix txs ev' m'
  assume a: "transact_opt ev so (BuyNFT m t) = (Success lo, so')"
     and h: "\<forall>x\<in>set (history_opt so' txs). \<not> (lists_token t (fst x) \<and> is_success (snd x))"
  have "guard_status (run_opt so' txs) = NOT_ENTERED"
    using buy_success_opt(1) [OF a] by (rule run_opt_guard)
  moreover have "price_opt (listings (run_opt so' txs) t) = 0"
    using buy_success_opt(2) [OF a] h by (rule unlisted_run_opt)
  ultimately show "fst (transact_opt ev' (run_opt so' txs) (BuyNFT m' t)) = Reverted (Error ''NFT not listed'')"
    by (simp add: buy_unlisted_opt)
next
  fix ev' m' t' out
  assume a: "transact_opt ev so (BuyNFT m t) = (Success lo, so')"
     and o: "out \<in> set (reenter_opt ev' (BuyNFT m' t') lo)"
  show "out = Reverted ReentrancyGuardReentrantCall"
    using o buy_success_opt(3) [OF a] by (auto simp: reenter_opt_def entered_rejects_buy_opt)
qed

theorem no_double_sale_witness:
  "is_success (fst (transact env_ok (run (init 1) listing_txs) (BuyNFT \<lparr>msg_sender = 3, msg_value = 7\<rparr> 0)))
   \<and> is_success (fst (transact env_ok (snd (transact env_ok (run (init 1) listing_txs) (BuyNFT \<lparr>msg_sender = 3, msg_value = 7\<rparr> 0)))
                    (WithdrawFunds 2)))
   \<and> fst (transact env_ok
            (run (snd (transact env_ok (run (init 1) listing_txs) (BuyNFT \<lparr>msg_sender = 3, msg_value = 7\<rparr> 0)))
               [(env_ok, WithdrawFunds 2)])
            (BuyNFT \<lparr>msg_sender = 4, msg_value = 9\<rparr> 0)) = Reverted (Error ''NFT not listed'')
   \<and> is_success (fst (transact_opt env_ok (run_opt (init_opt 1) listing_txs) (BuyNFT \<lparr>msg_sender = 3, msg_value = 7\<rparr> 0)))
   \<and> fst (transact_opt env_ok
            (run_opt (snd (transact_opt env_ok (run_opt (init_opt 1) listing_txs) (BuyNFT \<lparr>msg_sender = 3, msg_value = 7\<rparr> 0)))
               [(env_ok, WithdrawFunds 2)])
            (BuyNFT \<lparr>msg_sender = 4, msg_value = 9\<rparr> 0)) = Reverted (Error ''NFT not listed'')"
proof -
  let ?s = "run (init 1) listing_txs" and ?so = "run_opt (init_opt 1) listing_txs"
  let ?b = "BuyNFT \<lparr>msg_sender = 3, msg_value = 7\<rparr> 0"
  have a: "is_success (fst (transact env_ok ?s ?b))"
    by (simp add: eval_simps)
  have ao: "is_success (fst (transact_opt env_ok ?so ?b))"
    by (simp add: eval_simps uint96_max_def)
  have w: "is_success (fst (transact env_ok (snd (transact env_ok ?s ?b)) (WithdrawFunds 2)))"
    by (simp add: eval_simps)
  have h: "\<forall>x\<in>set (history (snd (transact env_ok ?s ?b)) [(env_ok, WithdrawFunds 2)]).
             \<not> (lists_token 0 (fst x) \<and> is_success (snd x))"
    by simp
  have ho: "\<forall>x\<in>set (history_opt (snd (transact_opt env_ok ?so ?b)) [(env_ok, WithdrawFunds 2)]).
             \<not> (lists_token 0 (fst x) \<and> is_success (snd x))"
    by simp
  show ?thesis
    using no_double_sale [of env_ok ?s "\<lparr>msg_sender = 3, msg_value = 7\<rparr>" 0
            "log_of (fst (transact env_ok ?s ?b))" "snd (transact env_ok ?s ?b)"
            ?so "log_of (fst (transact_opt env_ok ?so ?b))" "snd (transact_opt env_ok ?so ?b)"]
          transact_collapse [OF a] transact_opt_collapse [OF ao] a ao w h ho
    by blast
qed

text \<open>
  The claim as stated fails for the re-entrant buy: it is rejected, but by the guard and
  not with "NFT not listed".
\<close>

theorem no_double_sale_counterexample:
  "is_success (fst (transact env_ok (run (init 1) listing_txs) (BuyNFT \<lparr>msg_sender = 3, msg_value = 7\<rparr> 0)))
   \<and> reenter env_ok (BuyNFT \<lparr>msg_sender = 3, msg_value = 0\<rparr> 0)
        (log_of (fst (transact env_ok (run (init 1) listing_txs) (BuyNFT \<lparr>msg_sender = 3, msg_value = 7\<rparr> 0))))
      = [Reverted ReentrancyGuardReentrantCall]
   \<and> is_success (fst (transact_opt env_ok (run_opt (init_opt 1) listing_txs) (BuyNFT \<lparr>msg_sender = 3, msg_value = 7\<rparr> 0)))
   \<and> reenter_opt env_ok (BuyNFT \<lparr>msg_sender = 3, msg_value = 0\<rparr> 0)
        (log_of (fst (transact_opt env_ok (run_opt (init_opt 1) listing_txs) (BuyNFT \<lparr>msg_sender = 3, msg_value = 7\<rparr> 0))))
      = [Reverted ReentrancyGuardReentrantCall]"
  by (simp add: eval_simps reenter_def reenter_opt_def uint96_max_def)

text \<open>
  C4. The log of a successful buy, in program order: the listing is written (removed)
  first; then the token changes owner; then the seller's escrow is credited; then, only
  when the payment exceeds the price, the excess is sent back to the buyer, the one
  outbound transfer of the call; then the sale event. The recipient of the refund finds
  the listing removed, the token with the buyer and the escrow credited. Both contracts.
\<close>

theorem buy_order:
  "(transact ev s (BuyNFT m t) = (Success l, s') \<longrightarrow>
      map erase l =
          [Stored Status, Stored (Listings t), Stored (TokenApprovals t), Stored (Owners t),
           Emitted (Transfer (seller (listings s t)) (msg_sender m) t),
           Stored (PendingWithdrawals (seller (listings s t)))]
          @ (if price (listings s t) < msg_value m
             then [Sent Refund (msg_sender m) (msg_value m - price (listings s t)) ()] else [])
          @ [Emitted (NFTSold t (msg_sender m) (seller (listings s t)) (price (listings s t))),
             Stored Status]
      \<and> (\<forall>snap\<in>set (snapshots l). \<not> isActive (listings snap t)
            \<and> erc721_owners snap t = msg_sender m
            \<and> pendingWithdrawals snap (seller (listings s t))
                = pendingWithdrawals s (seller (listings s t)) + price (listings s t)))
   \<and> (transact_opt ev so (BuyNFT m t) = (Success lo, so') \<longrightarrow>
      map erase lo =
          [Stored Status, Stored (Listings t), Stored (TokenApprovals t), Stored (Owners t),
           Emitted (Transfer (seller_opt (listings so t)) (msg_sender m) t),
           Stored (PendingWithdrawals (seller_opt (listings so t)))]
          @ (if msg_value m - ucast (price_opt (listings so t)) \<noteq> 0
             then [Sent Refund (msg_sender m) (msg_value m - ucast (price_opt (listings so t))) ()] else [])
          @ [Emitted (NFTSold t (msg_sender m) (seller_opt (listings so t)) (ucast (price_opt (listings so t)))),
             Stored Status]
      \<and> (\<forall>snap\<in>set (snapshots lo). price_opt (listings snap t) = 0
            \<and> erc721_owners snap t = msg_sender m
            \<and> pendingWithdrawals snap (seller_opt (listings so t))
                = pendingWithdrawals so (seller_opt (listings so t)) + ucast (price_opt (listings so t))))"
  using buy_success(3,4) [of ev s m t l s'] buy_success_opt(3,4) [of ev so m t lo so']
  by blast

theorem buy_order_witness:
  "map erase (log_of (fst (transact env_ok (run (init 1) listing_txs) (BuyNFT \<lparr>msg_sender = 3, msg_value = 7\<rparr> 0))))
     = [Stored Status, Stored (Listings 0), Stored (TokenApprovals 0), Stored (Owners 0),
        Emitted (Transfer 2 3 0), Stored (PendingWithdrawals 2), Sent Refund 3 2 (),
        Emitted (NFTSold 0 3 2 5), Stored Status]
   \<and> map erase (log_of (fst (transact_opt env_ok (run_opt (init_opt 1) listing_txs) (BuyNFT \<lparr>msg_sender = 3, msg_value = 7\<rparr> 0))))
     = [Stored Status, Stored (Listings 0), Stored (TokenApprovals 0), Stored (Owners 0),
        Emitted (Transfer 2 3 0), Stored (PendingWithdrawals 2), Sent Refund 3 2 (),
        Emitted (NFTSold 0 3 2 5), Stored Status]
   \<and> map (\<lambda>snap. (isActive (listings snap 0), erc721_owners snap 0, pendingWithdrawals snap 2))
        (snapshots (log_of (fst (transact env_ok (run (init 1) listing_txs) (BuyNFT \<lparr>msg_sender = 3, msg_value = 7\<rparr> 0)))))
     = [(False, 3, 5)]"
proof -
  let ?s = "run (init 1) listing_txs" and ?so = "run_opt (init_opt 1) listing_txs"
  let ?b = "BuyNFT \<lparr>msg_sender = 3, msg_value = 7\<rparr> 0"
  have a: "is_success (fst (transact env_ok ?s ?b))"
    by (simp add: eval_simps)
  have ao: "is_success (fst (transact_opt env_ok ?so ?b))"
    by (simp add: eval_simps uint96_max_def)
  have v: "price (listings ?s 0) = 5" "seller (listings ?s 0) = 2"
          "price_opt (listings ?so 0) = 5" "seller_opt (listings ?so 0) = 2"
    by (simp_all add: eval_simps uint96_max_def)
  have sn: "map (\<lambda>snap. (isActive (listings snap 0), erc721_owners snap 0, pendingWithdrawals snap 2))
        (snapshots (log_of (fst (transact env_ok ?s ?b)))) = [(False, 3, 5)]"
    by (simp add: eval_simps)
  show ?thesis
    using buy_order [of env_ok ?s "\<lparr>msg_sender = 3, msg_value = 7\<rparr>" 0
            "log_of (fst (transact env_ok ?s ?b))" "snd (transact env_ok ?s ?b)"
            ?so "log_of (fst (transact_opt env_ok ?so ?b))" "snd (transact_opt env_ok ?so ?b)"]
          transact_collapse [OF a] transact_opt_collapse [OF ao] v sn
    by simp
qed

theorem conservation_witness:
  "escrow_total (run (init 1) sale_txs) = 5
   \<and> eth_balance (run (init 1) sale_txs) = 5
   \<and> escrow_total (run (init 1) demo_txs) = 0
   \<and> withdrawn (history (init 1) demo_txs) = 5
   \<and> fees_collected (history (init 1) demo_txs) = 10000000000000000
   \<and> prices_received (history (init 1) demo_txs) = 5
   \<and> fees_paid_in (history (init 1) demo_txs) = 10000000000000000
   \<and> eth_balance (run (init 1) demo_txs) = 0"
proof -
  have e: "escrow_total (run (init 1) sale_txs) = 5" "eth_balance (run (init 1) sale_txs) = 5"
    by (simp_all add: eval_simps escrow_total_def sum_balances_upd sum_balances_zero)
  have h: "withdrawn (history (init 1) demo_txs) = 5"
          "fees_collected (history (init 1) demo_txs) = 10000000000000000"
          "prices_received (history (init 1) demo_txs) = 5"
          "fees_paid_in (history (init 1) demo_txs) = 10000000000000000"
    by (simp_all add: eval_simps)
  show ?thesis
    using conservation [of 1 demo_txs] e h by simp
qed

lemma reach_funded: "eth_balance (run (init d) txs) = escrow_total (run (init d) txs)"
  using balance_run [of "init d" txs] by (simp add: escrow_total_init) (simp add: init_def)

lemma unat_add_le: "unat (x + y) \<le> unat x + unat y" for x :: "'a::len word"
  by (simp add: unat_word_ariths)

lemma funded_opt_step:
  "escrow_total s \<le> eth_balance s \<Longrightarrow>
   escrow_total (snd (transact_opt ev s c)) \<le> eth_balance (snd (transact_opt ev s c))"
proof (cases c)
  case (BuyNFT m t)
  assume a: "escrow_total s \<le> eth_balance s"
  show ?thesis
    using a balance_le_sum [of "pendingWithdrawals s" "seller_opt (listings s t)"]
      unat_add_le [of "pendingWithdrawals s (seller_opt (listings s t))" "ucast (price_opt (listings s t))"]
    by (auto simp: BuyNFT transact_opt_def execute_buyNFT_opt escrow_total_def sum_balances_upd)
next
  case (WithdrawFunds a)
  assume a: "escrow_total s \<le> eth_balance s"
  show ?thesis
    using a balance_le_sum [of "pendingWithdrawals s" a]
    by (auto simp: WithdrawFunds transact_opt_def execute_withdrawFunds escrow_total_def sum_balances_upd)
qed (simp_all add: transact_opt_def execute_opt escrow_total_def)

lemma run_opt_funded:
  "escrow_total s \<le> eth_balance s \<Longrightarrow> escrow_total (run_opt s txs) \<le> eth_balance (run_opt s txs)"
  by (induction txs arbitrary: s) (simp_all add: funded_opt_step)

lemma reach_opt_funded: "escrow_total (run_opt (init_opt d) txs) \<le> eth_balance (run_opt (init_opt d) txs)"
  by (rule run_opt_funded) (simp add: init_opt_def escrow_total_def sum_balances_zero)

subsection \<open>Withdrawing\<close>

lemma withdraw_cases:
  assumes "guard_status s = NOT_ENTERED" and "escrow_total s \<le> eth_balance s"
  shows "(is_success (fst (execute (withdrawFunds ev a) s))
            \<longleftrightarrow> 0 < pendingWithdrawals s a \<and> recv ev a (pendingWithdrawals s a))
     \<and> (is_success (fst (execute (withdrawFunds ev a) s)) \<longrightarrow>
          map erase (log_of (fst (execute (withdrawFunds ev a) s)))
            = [Stored Status, Stored (PendingWithdrawals a), Sent Payout a (pendingWithdrawals s a) (), Stored Status]
          \<and> (\<forall>snap\<in>set (snapshots (log_of (fst (execute (withdrawFunds ev a) s)))). pendingWithdrawals snap a = 0)
          \<and> pendingWithdrawals (snd (execute (withdrawFunds ev a) s)) a = 0
          \<and> eth_balance (snd (execute (withdrawFunds ev a) s)) + unat (pendingWithdrawals s a) = eth_balance s)
     \<and> (pendingWithdrawals s a = 0 \<longrightarrow>
          execute (withdrawFunds ev a) s = (Reverted (Error ''No funds to withdraw''), s)
          \<and> execute (withdrawFunds ev' a) (snd (execute (withdrawFunds ev a) s))
              = (Reverted (Error ''No funds to withdraw''), s))
     \<and> (0 < pendingWithdrawals s a \<and> \<not> recv ev a (pendingWithdrawals s a) \<longrightarrow>
          execute (withdrawFunds ev a) s = (Reverted EtherTransferFailed, s))"
  using assms balance_le_sum [of "pendingWithdrawals s" a]
  by (simp add: execute_withdrawFunds escrow_total_def word_greater_zero_iff)

text \<open>
  C5, as amended. In every storage reachable from deployment, \<^verbatim>\<open>withdrawFunds\<close> called
  by \<open>a\<close> succeeds exactly when the escrow balance of \<open>a\<close> is positive and \<open>a\<close> accepts
  the transfer of that balance. On success the balance is written to zero before the one
  outbound transfer (the recipient finds it zero), the whole prior balance is sent, and
  the contract's ether drops by it. With a zero balance the call fails with
  "No funds to withdraw", the storage is unchanged, and a repeated call fails the same way.
  With a positive balance that the caller rejects, the call fails and nothing changes.
  Both contracts.
\<close>

theorem withdraw_exact:
  assumes "s = run (init d) txs" and "so = run_opt (init_opt d') txs'"
  shows "(is_success (fst (transact ev s (WithdrawFunds a)))
            \<longleftrightarrow> 0 < pendingWithdrawals s a \<and> recv ev a (pendingWithdrawals s a))
     \<and> (is_success (fst (transact ev s (WithdrawFunds a))) \<longrightarrow>
          map erase (log_of (fst (transact ev s (WithdrawFunds a))))
            = [Stored Status, Stored (PendingWithdrawals a), Sent Payout a (pendingWithdrawals s a) (), Stored Status]
          \<and> (\<forall>snap\<in>set (snapshots (log_of (fst (transact ev s (WithdrawFunds a))))). pendingWithdrawals snap a = 0)
          \<and> pendingWithdrawals (snd (transact ev s (WithdrawFunds a))) a = 0
          \<and> eth_balance (snd (transact ev s (WithdrawFunds a))) + unat (pendingWithdrawals s a) = eth_balance s)
     \<and> (pendingWithdrawals s a = 0 \<longrightarrow>
          transact ev s (WithdrawFunds a) = (Reverted (Error ''No funds to withdraw''), s)
          \<and> transact ev' (snd (transact ev s (WithdrawFunds a))) (WithdrawFunds a)
              = (Reverted (Error ''No funds to withdraw''), s))
     \<and> (0 < pendingWithdrawals s a \<and> \<not> recv ev a (pendingWithdrawals s a) \<longrightarrow>
          transact ev s (WithdrawFunds a) = (Reverted EtherTransferFailed, s))
     \<and> (is_success (fst (transact_opt ev so (WithdrawFunds a)))
            \<longleftrightarrow> 0 < pendingWithdrawals so a \<and> recv ev a (pendingWithdrawals so a))
     \<and> (is_success (fst (transact_opt ev so (WithdrawFunds a))) \<longrightarrow>
          map erase (log_of (fst (transact_opt ev so (WithdrawFunds a))))
            = [Stored Status, Stored (PendingWithdrawals a), Sent Payout a (pendingWithdrawals so a) (), Stored Status]
          \<and> (\<forall>snap\<in>set (snapshots (log_of (fst (transact_opt ev so (WithdrawFunds a))))). pendingWithdrawals snap a = 0)
          \<and> pendingWithdrawals (snd (transact_opt ev so (WithdrawFunds a))) a = 0
          \<and> eth_balance (snd (transact_opt ev so (WithdrawFunds a))) + unat (pendingWithdrawals so a) = eth_balance so)
     \<and> (pendingWithdrawals so a = 0 \<longrightarrow>
          transact_opt ev so (WithdrawFunds a) = (Reverted (Error ''No funds to withdraw''), so)
          \<and> transact_opt ev' (snd (transact_opt ev so (WithdrawFunds a))) (WithdrawFunds a)
              = (Reverted (Error ''No funds to withdraw''), so))
     \<and> (0 < pendingWithdrawals so a \<and> \<not> recv ev a (pendingWithdrawals so a) \<longrightarrow>
          transact_opt ev so (WithdrawFunds a) = (Reverted EtherTransferFailed, so))"
proof -
  have g: "guard_status s = NOT_ENTERED" and f: "escrow_total s \<le> eth_balance s"
    using assms(1) by (simp_all add: reach_guard reach_funded)
  have go: "guard_status so = NOT_ENTERED" and fo: "escrow_total so \<le> eth_balance so"
    using assms(2) by (simp_all add: reach_opt_guard reach_opt_funded)
  show ?thesis
    unfolding transact_def transact_opt_def dispatch.simps dispatch_opt.simps
    using withdraw_cases [OF g f, of ev a ev'] withdraw_cases [OF go fo, of ev a ev']
    by blast
qed

theorem withdraw_exact_witness:
  "is_success (fst (transact env_ok (run (init 1) sale_txs) (WithdrawFunds 2)))
   \<and> pendingWithdrawals (run (init 1) sale_txs) 2 = 5
   \<and> map erase (log_of (fst (transact env_ok (run (init 1) sale_txs) (WithdrawFunds 2))))
       = [Stored Status, Stored (PendingWithdrawals 2), Sent Payout 2 5 (), Stored Status]
   \<and> pendingWithdrawals (snd (transact env_ok (run (init 1) sale_txs) (WithdrawFunds 2))) 2 = 0
   \<and> pendingWithdrawals (run (init 1) sale_txs) 3 = 0
   \<and> transact env_ok (run (init 1) sale_txs) (WithdrawFunds 3)
       = (Reverted (Error ''No funds to withdraw''), run (init 1) sale_txs)
   \<and> is_success (fst (transact_opt env_ok (run_opt (init_opt 1) sale_txs) (WithdrawFunds 2)))
   \<and> pendingWithdrawals (run_opt (init_opt 1) sale_txs) 2 = 5
   \<and> transact_opt env_ok (run_opt (init_opt 1) sale_txs) (WithdrawFunds 3)
       = (Reverted (Error ''No funds to withdraw''), run_opt (init_opt 1) sale_txs)"
proof -
  have v: "pendingWithdrawals (run (init 1) sale_txs) 2 = 5" "pendingWithdrawals (run (init 1) sale_txs) 3 = 0"
          "pendingWithdrawals (run_opt (init_opt 1) sale_txs) 2 = 5" "pendingWithdrawals (run_opt (init_opt 1) sale_txs) 3 = 0"
    by (simp_all add: eval_simps uint96_max_def)
  have r: "recv env_ok 2 5" by (simp add: env_ok_def)
  show ?thesis
    using withdraw_exact [OF refl refl, where d = 1 and txs = sale_txs and d' = 1 and txs' = sale_txs and ev = env_ok and a = 2]
          withdraw_exact [OF refl refl, where d = 1 and txs = sale_txs and d' = 1 and txs' = sale_txs and ev = env_ok and a = 3] v r
    by simp
qed

text \<open>
  The claim as stated fails when the caller cannot receive ether: the balance is positive
  and the withdrawal reverts. It also fails for a withdrawal attempted re-entrantly: a
  seller who buys the own listing and overpays is sent the refund when the escrow is
  already credited, and a withdrawal from inside that transfer is rejected by the guard.
\<close>

theorem withdraw_exact_counterexample:
  "pendingWithdrawals (run (init 1) (rejecting_txs @ [(env_rejecting 2, BuyNFT \<lparr>msg_sender = 3, msg_value = 7\<rparr> 0)])) 2 = 5
   \<and> transact (env_rejecting 2)
        (run (init 1) (rejecting_txs @ [(env_rejecting 2, BuyNFT \<lparr>msg_sender = 3, msg_value = 7\<rparr> 0)]))
        (WithdrawFunds 2)
      = (Reverted EtherTransferFailed,
         run (init 1) (rejecting_txs @ [(env_rejecting 2, BuyNFT \<lparr>msg_sender = 3, msg_value = 7\<rparr> 0)]))
   \<and> pendingWithdrawals (run_opt (init_opt 1) (rejecting_txs @ [(env_rejecting 2, BuyNFT \<lparr>msg_sender = 3, msg_value = 7\<rparr> 0)])) 2 = 5
   \<and> transact_opt (env_rejecting 2)
        (run_opt (init_opt 1) (rejecting_txs @ [(env_rejecting 2, BuyNFT \<lparr>msg_sender = 3, msg_value = 7\<rparr> 0)]))
        (WithdrawFunds 2)
      = (Reverted EtherTransferFailed,
         run_opt (init_opt 1) (rejecting_txs @ [(env_rejecting 2, BuyNFT \<lparr>msg_sender = 3, msg_value = 7\<rparr> 0)]))
   \<and> pendingWithdrawals
        (hd (snapshots (log_of (fst (transact env_ok (run (init 1) listing_txs) (BuyNFT \<lparr>msg_sender = 2, msg_value = 7\<rparr> 0))))))
        2 = 5
   \<and> reenter env_ok (WithdrawFunds 2)
        (log_of (fst (transact env_ok (run (init 1) listing_txs) (BuyNFT \<lparr>msg_sender = 2, msg_value = 7\<rparr> 0))))
      = [Reverted ReentrancyGuardReentrantCall]"
  by (simp add: eval_simps rejecting_txs_def reenter_def uint96_max_def)

subsection \<open>Listing\<close>

lemma success_iff_no_error: "is_success out \<longleftrightarrow> error_of out = None"
  by (cases out) simp_all

lemma list_errors:
  "guard_status s = NOT_ENTERED \<Longrightarrow>
   error_of (fst (transact ev s (ListNFT m t p))) =
     (if erc721_owners s t = 0 then Some (ERC721NonexistentToken t)
      else if erc721_owners s t \<noteq> msg_sender m then Some (Error ''Not the owner'')
      else if p = 0 then Some (Error ''Price must be greater than 0'')
      else if \<not> listingFee s \<le> msg_value m then Some (Error ''Insufficient listing fee'')
      else if isActive (listings s t) then Some (Error ''Already listed'')
      else if \<not> recv ev (ownable_owner s) (listingFee s) then Some EtherTransferFailed
      else if listingFee s < msg_value m \<and> \<not> recv ev (msg_sender m) (msg_value m - listingFee s)
        then Some EtherTransferFailed
      else None)"
  by (simp add: transact_def execute_listNFT)

lemma list_errors_opt:
  "guard_status s = NOT_ENTERED \<Longrightarrow>
   error_of (fst (transact_opt ev s (ListNFT m t p))) =
     (if p = 0 then Some (Error ''Price must be greater than 0'')
      else if \<not> p \<le> uint96_max then Some (Error ''Price too high'')
      else if \<not> ucast (listingFee s) \<le> msg_value m then Some (Error ''Insufficient listing fee'')
      else if erc721_owners s t = 0 then Some (ERC721NonexistentToken t)
      else if erc721_owners s t \<noteq> msg_sender m then Some (Error ''Not the owner'')
      else if price_opt (listings s t) \<noteq> 0 then Some (Error ''Already listed'')
      else if \<not> recv ev (ownable_owner s) (ucast (listingFee s)) then Some EtherTransferFailed
      else if msg_value m - ucast (listingFee s) \<noteq> 0
              \<and> \<not> recv ev (msg_sender m) (msg_value m - ucast (listingFee s))
        then Some EtherTransferFailed
      else None)"
  by (simp add: transact_opt_def execute_listNFT_opt)

text \<open>
  C7, as amended. In every storage reachable from deployment, \<^verbatim>\<open>listNFT\<close> reports the
  first check that fails, in program order, and succeeds exactly when none does: the token
  exists and the caller owns it, the price is positive (and, in the optimised contract, at
  most the largest \<^verbatim>\<open>uint96\<close>), the payment covers the fee, the token has no active listing,
  the operator accepts the fee, and the caller accepts the refund of any excess. A token
  that does not exist is reported as \<^verbatim>\<open>ERC721NonexistentToken\<close>, a rejected transfer as a
  failed ether transfer. The optimised contract checks the price and the fee before the
  owner.
\<close>

theorem list_preconditions:
  assumes "s = run (init d) txs" and "so = run_opt (init_opt d') txs'"
  shows "error_of (fst (transact ev s (ListNFT m t p))) =
     (if erc721_owners s t = 0 then Some (ERC721NonexistentToken t)
      else if erc721_owners s t \<noteq> msg_sender m then Some (Error ''Not the owner'')
      else if p = 0 then Some (Error ''Price must be greater than 0'')
      else if \<not> listingFee s \<le> msg_value m then Some (Error ''Insufficient listing fee'')
      else if isActive (listings s t) then Some (Error ''Already listed'')
      else if \<not> recv ev (ownable_owner s) (listingFee s) then Some EtherTransferFailed
      else if listingFee s < msg_value m \<and> \<not> recv ev (msg_sender m) (msg_value m - listingFee s)
        then Some EtherTransferFailed
      else None)
   \<and> (is_success (fst (transact ev s (ListNFT m t p))) \<longleftrightarrow>
        erc721_owners s t \<noteq> 0 \<and> erc721_owners s t = msg_sender m \<and> 0 < p
        \<and> listingFee s \<le> msg_value m \<and> \<not> isActive (listings s t)
        \<and> recv ev (ownable_owner s) (listingFee s)
        \<and> (listingFee s < msg_value m \<longrightarrow> recv ev (msg_sender m) (msg_value m - listingFee s)))
   \<and> error_of (fst (transact_opt ev so (ListNFT m t p))) =
     (if p = 0 then Some (Error ''Price must be greater than 0'')
      else if \<not> p \<le> uint96_max then Some (Error ''Price too high'')
      else if \<not> ucast (listingFee so) \<le> msg_value m then Some (Error ''Insufficient listing fee'')
      else if erc721_owners so t = 0 then Some (ERC721NonexistentToken t)
      else if erc721_owners so t \<noteq> msg_sender m then Some (Error ''Not the owner'')
      else if price_opt (listings so t) \<noteq> 0 then Some (Error ''Already listed'')
      else if \<not> recv ev (ownable_owner so) (ucast (listingFee so)) then Some EtherTransferFailed
      else if msg_value m - ucast (listingFee so) \<noteq> 0
              \<and> \<not> recv ev (msg_sender m) (msg_value m - ucast (listingFee so))
        then Some EtherTransferFailed
      else None)
   \<and> (is_success (fst (transact_opt ev so (ListNFT m t p))) \<longleftrightarrow>
        erc721_owners so t \<noteq> 0 \<and> erc721_owners so t = msg_sender m \<and> 0 < p \<and> p \<le> uint96_max
        \<and> ucast (listingFee so) \<le> msg_value m \<and> price_opt (listings so t) = 0
        \<and> recv ev (ownable_owner so) (ucast (listingFee so))
        \<and> (msg_value m - ucast (listingFee so) \<noteq> 0 \<longrightarrow> recv ev (msg_sender m) (msg_value m - ucast (listingFee so))))"
proof -
  have g: "guard_status s = NOT_ENTERED" and go: "guard_status so = NOT_ENTERED"
    using assms by (simp_all add: reach_guard reach_opt_guard)
  have 1: "is_success (fst (transact ev s (ListNFT m t p))) \<longleftrightarrow>
        erc721_owners s t \<noteq> 0 \<and> erc721_owners s t = msg_sender m \<and> 0 < p
        \<and> listingFee s \<le> msg_value m \<and> \<not> isActive (listings s t)
        \<and> recv ev (ownable_owner s) (listingFee s)
        \<and> (listingFee s < msg_value m \<longrightarrow> recv ev (msg_sender m) (msg_value m - listingFee s))"
    by (auto simp: success_iff_no_error list_errors [OF g] word_greater_zero_iff)
  have 2: "is_success (fst (transact_opt ev so (ListNFT m t p))) \<longleftrightarrow>
        erc721_owners so t \<noteq> 0 \<and> erc721_owners so t = msg_sender m \<and> 0 < p \<and> p \<le> uint96_max
        \<and> ucast (listingFee so) \<le> msg_value m \<and> price_opt (listings so t) = 0
        \<and> recv ev (ownable_owner so) (ucast (listingFee so))
        \<and> (msg_value m - ucast (listingFee so) \<noteq> 0 \<longrightarrow> recv ev (msg_sender m) (msg_value m - ucast (listingFee so)))"
    by (auto simp: success_iff_no_error list_errors_opt [OF go] word_greater_zero_iff)
  show ?thesis
    using list_errors [OF g, of ev m t p] list_errors_opt [OF go, of ev m t p] 1 2 by blast
qed

theorem list_preconditions_witness:
  "is_success (fst (transact env_ok (run (init 1) [(env_ok, MintNFT 2 ''ipfs://a'')])
                    (ListNFT \<lparr>msg_sender = 2, msg_value = 10000000000000003\<rparr> 0 5)))
   \<and> error_of (fst (transact env_ok (run (init 1) [(env_ok, MintNFT 2 ''ipfs://a'')])
                    (ListNFT \<lparr>msg_sender = 3, msg_value = 10000000000000003\<rparr> 0 5))) = Some (Error ''Not the owner'')
   \<and> error_of (fst (transact env_ok (run (init 1) listing_txs)
                    (ListNFT \<lparr>msg_sender = 2, msg_value = 10000000000000003\<rparr> 0 5))) = Some (Error ''Already listed'')
   \<and> is_success (fst (transact_opt env_ok (run_opt (init_opt 1) [(env_ok, MintNFT 2 ''ipfs://a'')])
                    (ListNFT \<lparr>msg_sender = 2, msg_value = 10000000000000003\<rparr> 0 5)))
   \<and> error_of (fst (transact_opt env_ok (run_opt (init_opt 1) listing_txs)
                    (ListNFT \<lparr>msg_sender = 2, msg_value = 10000000000000003\<rparr> 0 5))) = Some (Error ''Already listed'')"
proof -
  note L = list_preconditions [OF refl refl, where d = 1 and d' = 1 and ev = env_ok and t = 0 and p = 5]
  show ?thesis
    using L [where txs = "[(env_ok, MintNFT 2 ''ipfs://a'')]" and txs' = "[(env_ok, MintNFT 2 ''ipfs://a'')]"
               and m = "\<lparr>msg_sender = 2, msg_value = 10000000000000003\<rparr>"]
          L [where txs = "[(env_ok, MintNFT 2 ''ipfs://a'')]" and txs' = "[(env_ok, MintNFT 2 ''ipfs://a'')]"
               and m = "\<lparr>msg_sender = 3, msg_value = 10000000000000003\<rparr>"]
          L [where txs = listing_txs and txs' = listing_txs
               and m = "\<lparr>msg_sender = 2, msg_value = 10000000000000003\<rparr>"]
    by (simp add: eval_simps uint96_max_def)
qed

text \<open>
  The claim as stated fails when the operator cannot receive the fee: the four
  preconditions hold and the listing reverts. And a token that was never minted is not
  reported as "Not the owner".
\<close>

theorem list_preconditions_counterexample:
  "erc721_owners (run (init 1) [(env_rejecting 1, MintNFT 2 ''ipfs://a'')]) 0 = 2
   \<and> listingFee (run (init 1) [(env_rejecting 1, MintNFT 2 ''ipfs://a'')]) = 10000000000000000
   \<and> \<not> isActive (listings (run (init 1) [(env_rejecting 1, MintNFT 2 ''ipfs://a'')]) 0)
   \<and> fst (transact (env_rejecting 1) (run (init 1) [(env_rejecting 1, MintNFT 2 ''ipfs://a'')])
        (ListNFT \<lparr>msg_sender = 2, msg_value = 10000000000000000\<rparr> 0 5))
      = Reverted EtherTransferFailed
   \<and> fst (transact env_ok (init 1) (ListNFT \<lparr>msg_sender = 2, msg_value = 10000000000000000\<rparr> 7 5))
      = Reverted (ERC721NonexistentToken 7)
   \<and> erc721_owners (run_opt (init_opt 1) [(env_rejecting 1, MintNFT 2 ''ipfs://a'')]) 0 = 2
   \<and> listingFee (run_opt (init_opt 1) [(env_rejecting 1, MintNFT 2 ''ipfs://a'')]) = 10000000000000000
   \<and> price_opt (listings (run_opt (init_opt 1) [(env_rejecting 1, MintNFT 2 ''ipfs://a'')]) 0) = 0
   \<and> fst (transact_opt (env_rejecting 1) (run_opt (init_opt 1) [(env_rejecting 1, MintNFT 2 ''ipfs://a'')])
        (ListNFT \<lparr>msg_sender = 2, msg_value = 10000000000000000\<rparr> 0 5))
      = Reverted EtherTransferFailed
   \<and> fst (transact_opt env_ok (init_opt 1) (ListNFT \<lparr>msg_sender = 2, msg_value = 10000000000000000\<rparr> 7 5))
      = Reverted (ERC721NonexistentToken 7)"
  by (simp add: eval_simps uint96_max_def)

subsection \<open>Buying one's own listing\<close>

lemma self_buy:
  assumes "guard_status s = NOT_ENTERED" and "coherent s" and "escrow_total s \<le> eth_balance s"
      and "isActive (listings s t)" and "msg_sender m = seller (listings s t)"
      and "price (listings s t) \<le> msg_value m" and "eth_balance s + unat (msg_value m) < 2 ^ 256"
  shows "transact ev s (BuyNFT m t) =
     (if price (listings s t) < msg_value m \<and> \<not> recv ev (msg_sender m) (msg_value m - price (listings s t))
      then (Reverted EtherTransferFailed, s)
      else (fst (transact ev s (BuyNFT m t)), snd (transact ev s (BuyNFT m t))))"
    and "price (listings s t) < msg_value m \<longrightarrow> recv ev (msg_sender m) (msg_value m - price (listings s t)) \<Longrightarrow>
         is_success (fst (transact ev s (BuyNFT m t)))
         \<and> erc721_owners s t = msg_sender m
         \<and> erc721_owners (snd (transact ev s (BuyNFT m t))) t = msg_sender m
         \<and> \<not> isActive (listings (snd (transact ev s (BuyNFT m t))) t)
         \<and> unat (pendingWithdrawals (snd (transact ev s (BuyNFT m t))) (msg_sender m))
             = unat (pendingWithdrawals s (msg_sender m)) + unat (price (listings s t))
         \<and> sent Refund (log_of (fst (transact ev s (BuyNFT m t)))) = unat (msg_value m) - unat (price (listings s t))"
proof -
  have o: "erc721_owners s t = seller (listings s t)" "seller (listings s t) \<noteq> 0"
    using assms(2,4) by (auto simp: coherent_def)
  have "unat (pendingWithdrawals s (seller (listings s t))) \<le> eth_balance s"
    using balance_le_sum [of "pendingWithdrawals s" "seller (listings s t)"] assms(3)
    by (simp add: escrow_total_def)
  moreover have "unat (price (listings s t)) \<le> unat (msg_value m)"
    using assms(6) by (simp add: word_le_nat_alt)
  ultimately have n: "unat (pendingWithdrawals s (seller (listings s t))) + unat (price (listings s t)) < 2 ^ 256"
    using assms(7) by linarith
  show "transact ev s (BuyNFT m t) =
     (if price (listings s t) < msg_value m \<and> \<not> recv ev (msg_sender m) (msg_value m - price (listings s t))
      then (Reverted EtherTransferFailed, s)
      else (fst (transact ev s (BuyNFT m t)), snd (transact ev s (BuyNFT m t))))"
    using assms(1,4,5,6) o n by (simp add: transact_def execute_buyNFT)
  show "price (listings s t) < msg_value m \<longrightarrow> recv ev (msg_sender m) (msg_value m - price (listings s t)) \<Longrightarrow>
         is_success (fst (transact ev s (BuyNFT m t)))
         \<and> erc721_owners s t = msg_sender m
         \<and> erc721_owners (snd (transact ev s (BuyNFT m t))) t = msg_sender m
         \<and> \<not> isActive (listings (snd (transact ev s (BuyNFT m t))) t)
         \<and> unat (pendingWithdrawals (snd (transact ev s (BuyNFT m t))) (msg_sender m))
             = unat (pendingWithdrawals s (msg_sender m)) + unat (price (listings s t))
         \<and> sent Refund (log_of (fst (transact ev s (BuyNFT m t)))) = unat (msg_value m) - unat (price (listings s t))"
    using assms(1,4,5,6) o n
    by (auto simp: transact_def execute_buyNFT unat_credit unat_sub word_le_nat_alt word_less_nat_alt)
qed


lemma self_buy_opt:
  assumes "guard_status s = NOT_ENTERED" and "coherent_opt s" and "escrow_total s \<le> eth_balance s"
      and "price_opt (listings s t) \<noteq> 0" and "msg_sender m = seller_opt (listings s t)"
      and "ucast (price_opt (listings s t)) \<le> msg_value m" and "eth_balance s + unat (msg_value m) < 2 ^ 256"
  shows "transact_opt ev s (BuyNFT m t) =
     (if msg_value m - ucast (price_opt (listings s t)) \<noteq> 0
         \<and> \<not> recv ev (msg_sender m) (msg_value m - ucast (price_opt (listings s t)))
      then (Reverted EtherTransferFailed, s)
      else (fst (transact_opt ev s (BuyNFT m t)), snd (transact_opt ev s (BuyNFT m t))))"
    and "msg_value m - ucast (price_opt (listings s t)) \<noteq> 0
           \<longrightarrow> recv ev (msg_sender m) (msg_value m - ucast (price_opt (listings s t))) \<Longrightarrow>
         is_success (fst (transact_opt ev s (BuyNFT m t)))
         \<and> erc721_owners s t = msg_sender m
         \<and> erc721_owners (snd (transact_opt ev s (BuyNFT m t))) t = msg_sender m
         \<and> price_opt (listings (snd (transact_opt ev s (BuyNFT m t))) t) = 0
         \<and> unat (pendingWithdrawals (snd (transact_opt ev s (BuyNFT m t))) (msg_sender m))
             = unat (pendingWithdrawals s (msg_sender m)) + unat (price_opt (listings s t))
         \<and> sent Refund (log_of (fst (transact_opt ev s (BuyNFT m t))))
             = unat (msg_value m) - unat (price_opt (listings s t))"
proof -
  have o: "erc721_owners s t = seller_opt (listings s t)" "seller_opt (listings s t) \<noteq> 0"
    using assms(2,4) by (auto simp: coherent_opt_def)
  have "unat (pendingWithdrawals s (seller_opt (listings s t))) \<le> eth_balance s"
    using balance_le_sum [of "pendingWithdrawals s" "seller_opt (listings s t)"] assms(3)
    by (simp add: escrow_total_def)
  moreover have "unat (ucast (price_opt (listings s t)) :: uint256) \<le> unat (msg_value m)"
    using assms(6) by (simp add: word_le_nat_alt)
  ultimately have n: "unat (pendingWithdrawals s (seller_opt (listings s t)))
                        + unat (ucast (price_opt (listings s t)) :: uint256) < 2 ^ 256"
    using assms(7) by linarith
  show "transact_opt ev s (BuyNFT m t) =
     (if msg_value m - ucast (price_opt (listings s t)) \<noteq> 0
         \<and> \<not> recv ev (msg_sender m) (msg_value m - ucast (price_opt (listings s t)))
      then (Reverted EtherTransferFailed, s)
      else (fst (transact_opt ev s (BuyNFT m t)), snd (transact_opt ev s (BuyNFT m t))))"
    using assms(1,4,5,6) o by (simp add: transact_opt_def execute_buyNFT_opt)
  show "msg_value m - ucast (price_opt (listings s t)) \<noteq> 0
           \<longrightarrow> recv ev (msg_sender m) (msg_value m - ucast (price_opt (listings s t))) \<Longrightarrow>
         is_success (fst (transact_opt ev s (BuyNFT m t)))
         \<and> erc721_owners s t = msg_sender m
         \<and> erc721_owners (snd (transact_opt ev s (BuyNFT m t))) t = msg_sender m
         \<and> price_opt (listings (snd (transact_opt ev s (BuyNFT m t))) t) = 0
         \<and> unat (pendingWithdrawals (snd (transact_opt ev s (BuyNFT m t))) (msg_sender m))
             = unat (pendingWithdrawals s (msg_sender m)) + unat (price_opt (listings s t))
         \<and> sent Refund (log_of (fst (transact_opt ev s (BuyNFT m t))))
             = unat (msg_value m) - unat (price_opt (listings s t))"
    using assms(1,4,5,6) o n unat_credit [OF n]
    by (auto simp: transact_opt_def execute_buyNFT_opt unat_sub unat_ucast96)
qed

text \<open>
  C10, as amended. Nothing stops the seller from buying the own listing: in every storage
  reachable from deployment, a buy by the seller with a payment of at least the price
  succeeds, provided the seller accepts the refund of any excess. The token stays with the
  seller, the listing is removed, the seller's escrow grows by the price, and the excess is
  sent back. When the seller rejects the refund the buy fails and nothing changes. (The
  payment is taken to keep the contract's balance within 256 bits, as every payment on
  the chain does.) Both contracts.
\<close>

theorem self_purchase:
  assumes "s = run (init d) txs" and "so = run_opt (init_opt d') txs'"
  shows "(isActive (listings s t) \<and> msg_sender m = seller (listings s t) \<and> price (listings s t) \<le> msg_value m
          \<and> eth_balance s + unat (msg_value m) < 2 ^ 256
          \<and> (price (listings s t) < msg_value m \<longrightarrow> recv ev (msg_sender m) (msg_value m - price (listings s t)))
        \<longrightarrow> is_success (fst (transact ev s (BuyNFT m t)))
            \<and> erc721_owners s t = msg_sender m
            \<and> erc721_owners (snd (transact ev s (BuyNFT m t))) t = msg_sender m
            \<and> \<not> isActive (listings (snd (transact ev s (BuyNFT m t))) t)
            \<and> unat (pendingWithdrawals (snd (transact ev s (BuyNFT m t))) (msg_sender m))
                = unat (pendingWithdrawals s (msg_sender m)) + unat (price (listings s t))
            \<and> sent Refund (log_of (fst (transact ev s (BuyNFT m t)))) = unat (msg_value m) - unat (price (listings s t)))
     \<and> (isActive (listings s t) \<and> msg_sender m = seller (listings s t) \<and> price (listings s t) \<le> msg_value m
          \<and> eth_balance s + unat (msg_value m) < 2 ^ 256
          \<and> price (listings s t) < msg_value m \<and> \<not> recv ev (msg_sender m) (msg_value m - price (listings s t))
        \<longrightarrow> transact ev s (BuyNFT m t) = (Reverted EtherTransferFailed, s))
     \<and> (price_opt (listings so t) \<noteq> 0 \<and> msg_sender m = seller_opt (listings so t)
          \<and> ucast (price_opt (listings so t)) \<le> msg_value m
          \<and> eth_balance so + unat (msg_value m) < 2 ^ 256
          \<and> (msg_value m - ucast (price_opt (listings so t)) \<noteq> 0
                \<longrightarrow> recv ev (msg_sender m) (msg_value m - ucast (price_opt (listings so t))))
        \<longrightarrow> is_success (fst (transact_opt ev so (BuyNFT m t)))
            \<and> erc721_owners so t = msg_sender m
            \<and> erc721_owners (snd (transact_opt ev so (BuyNFT m t))) t = msg_sender m
            \<and> price_opt (listings (snd (transact_opt ev so (BuyNFT m t))) t) = 0
            \<and> unat (pendingWithdrawals (snd (transact_opt ev so (BuyNFT m t))) (msg_sender m))
                = unat (pendingWithdrawals so (msg_sender m)) + unat (price_opt (listings so t))
            \<and> sent Refund (log_of (fst (transact_opt ev so (BuyNFT m t))))
                = unat (msg_value m) - unat (price_opt (listings so t)))
     \<and> (price_opt (listings so t) \<noteq> 0 \<and> msg_sender m = seller_opt (listings so t)
          \<and> ucast (price_opt (listings so t)) \<le> msg_value m
          \<and> eth_balance so + unat (msg_value m) < 2 ^ 256
          \<and> msg_value m - ucast (price_opt (listings so t)) \<noteq> 0
          \<and> \<not> recv ev (msg_sender m) (msg_value m - ucast (price_opt (listings so t)))
        \<longrightarrow> transact_opt ev so (BuyNFT m t) = (Reverted EtherTransferFailed, so))"
proof -
  have g: "guard_status s = NOT_ENTERED" and c: "coherent s" and f: "escrow_total s \<le> eth_balance s"
    using assms(1) by (simp_all add: reach_guard reach_coherent reach_funded)
  have go: "guard_status so = NOT_ENTERED" and co: "coherent_opt so" and fo: "escrow_total so \<le> eth_balance so"
    using assms(2) by (simp_all add: reach_opt_guard reach_opt_coherent reach_opt_funded)
  show ?thesis
    using self_buy [OF g c f, of t m ev] self_buy_opt [OF go co fo, of t m ev]
    by (intro conjI impI) (elim conjE, simp)+
qed

theorem self_purchase_witness:
  "isActive (listings (run (init 1) listing_txs) 0)
   \<and> seller (listings (run (init 1) listing_txs) 0) = 2
   \<and> is_success (fst (transact env_ok (run (init 1) listing_txs) (BuyNFT \<lparr>msg_sender = 2, msg_value = 7\<rparr> 0)))
   \<and> erc721_owners (snd (transact env_ok (run (init 1) listing_txs) (BuyNFT \<lparr>msg_sender = 2, msg_value = 7\<rparr> 0))) 0 = 2
   \<and> \<not> isActive (listings (snd (transact env_ok (run (init 1) listing_txs) (BuyNFT \<lparr>msg_sender = 2, msg_value = 7\<rparr> 0))) 0)
   \<and> pendingWithdrawals (snd (transact env_ok (run (init 1) listing_txs) (BuyNFT \<lparr>msg_sender = 2, msg_value = 7\<rparr> 0))) 2 = 5
   \<and> sent Refund (log_of (fst (transact env_ok (run (init 1) listing_txs) (BuyNFT \<lparr>msg_sender = 2, msg_value = 7\<rparr> 0)))) = 2
   \<and> seller_opt (listings (run_opt (init_opt 1) listing_txs) 0) = 2
   \<and> is_success (fst (transact_opt env_ok (run_opt (init_opt 1) listing_txs) (BuyNFT \<lparr>msg_sender = 2, msg_value = 7\<rparr> 0)))
   \<and> erc721_owners (snd (transact_opt env_ok (run_opt (init_opt 1) listing_txs) (BuyNFT \<lparr>msg_sender = 2, msg_value = 7\<rparr> 0))) 0 = 2
   \<and> price_opt (listings (snd (transact_opt env_ok (run_opt (init_opt 1) listing_txs) (BuyNFT \<lparr>msg_sender = 2, msg_value = 7\<rparr> 0))) 0) = 0
   \<and> pendingWithdrawals (snd (transact_opt env_ok (run_opt (init_opt 1) listing_txs) (BuyNFT \<lparr>msg_sender = 2, msg_value = 7\<rparr> 0))) 2 = 5"
  using self_purchase [OF refl refl, where d = 1 and d' = 1 and txs = listing_txs and txs' = listing_txs
          and ev = env_ok and t = 0 and m = "\<lparr>msg_sender = 2, msg_value = 7\<rparr>"]
  by (simp add: eval_simps uint96_max_def)

text \<open>
  The claim as stated fails for a seller that cannot receive ether and overpays: the
  refund is rejected and the buy reverts.
\<close>

theorem self_purchase_counterexample:
  "isActive (listings (run (init 1) rejecting_txs) 0)
   \<and> seller (listings (run (init 1) rejecting_txs) 0) = 2
   \<and> price (listings (run (init 1) rejecting_txs) 0) = 5
   \<and> transact (env_rejecting 2) (run (init 1) rejecting_txs) (BuyNFT \<lparr>msg_sender = 2, msg_value = 7\<rparr> 0)
       = (Reverted EtherTransferFailed, run (init 1) rejecting_txs)
   \<and> seller_opt (listings (run_opt (init_opt 1) rejecting_txs) 0) = 2
   \<and> price_opt (listings (run_opt (init_opt 1) rejecting_txs) 0) = 5
   \<and> transact_opt (env_rejecting 2) (run_opt (init_opt 1) rejecting_txs) (BuyNFT \<lparr>msg_sender = 2, msg_value = 7\<rparr> 0)
       = (Reverted EtherTransferFailed, run_opt (init_opt 1) rejecting_txs)"
  by (simp add: eval_simps rejecting_txs_def uint96_max_def)

subsection \<open>The optimised contract against the baseline\<close>

lemma related_fields:
  assumes "related b q"
  shows "pendingWithdrawals q = pendingWithdrawals b" "nextTokenIdCounter q = nextTokenIdCounter b"
    "ucast (listingFee q) = listingFee b"
    "erc721_owners q = erc721_owners b" "tokenApprovals q = tokenApprovals b"
    "operatorApprovals q = operatorApprovals b" "tokenURIs q = tokenURIs b"
    "ownable_owner q = ownable_owner b" "guard_status q = guard_status b"
    "eth_balance q = eth_balance b"
    "price_opt (listings q t) = 0 \<longleftrightarrow> \<not> isActive (listings b t)"
    "isActive (listings b t) \<Longrightarrow> ucast (price_opt (listings q t)) = price (listings b t)"
    "isActive (listings b t) \<Longrightarrow> seller_opt (listings q t) = seller (listings b t)"
  using assms by (auto simp: related_def)

lemma sub_nonzero_iff: "pr \<le> v \<Longrightarrow> v - pr \<noteq> 0 \<longleftrightarrow> pr < v" for v :: "'a::len word"
  by (auto simp: word_le_nat_alt word_less_nat_alt word_unat_eq_iff unat_sub)

lemma sim_polymorphic:
  assumes "related b q"
  shows "same_outcome c (fst (execute (withdrawFunds ev a) b)) (fst (execute (withdrawFunds ev a) q))
         \<and> related (snd (execute (withdrawFunds ev a) b)) (snd (execute (withdrawFunds ev a) q))"
    and "same_outcome c (fst (execute (approve a to t) b)) (fst (execute (approve a to t) q))
         \<and> related (snd (execute (approve a to t) b)) (snd (execute (approve a to t) q))"
    and "same_outcome c (fst (execute (setApprovalForAll a x y) b)) (fst (execute (setApprovalForAll a x y) q))
         \<and> related (snd (execute (setApprovalForAll a x y) b)) (snd (execute (setApprovalForAll a x y) q))"
    and "same_outcome c (fst (execute (transferOwnership a to) b)) (fst (execute (transferOwnership a to) q))
         \<and> related (snd (execute (transferOwnership a to) b)) (snd (execute (transferOwnership a to) q))"
    and "same_outcome c (fst (execute (renounceOwnership a) b)) (fst (execute (renounceOwnership a) q))
         \<and> related (snd (execute (renounceOwnership a) b)) (snd (execute (renounceOwnership a) q))"
  using assms
  by (simp_all add: execute_withdrawFunds execute_approve execute_setApprovalForAll
        execute_transferOwnership execute_renounceOwnership related_fields [OF assms])
     (simp_all add: related_def)

lemma sim_cancel:
  assumes "related b q"
  shows "same_outcome c (fst (execute (cancelListing a t) b)) (fst (execute (cancelListing_opt a t) q))
         \<and> related (snd (execute (cancelListing a t) b)) (snd (execute (cancelListing_opt a t) q))"
  using assms
  by (simp add: execute_cancelListing execute_cancelListing_opt related_fields [OF assms])
     (simp add: related_def)

lemma sim_setfee:
  assumes "related b q" and "newFee \<le> uint96_max"
  shows "same_outcome c (fst (execute (setListingFee a newFee) b)) (fst (execute (setListingFee_opt a newFee) q))
         \<and> related (snd (execute (setListingFee a newFee) b)) (snd (execute (setListingFee_opt a newFee) q))"
  using assms
  by (simp add: execute_setListingFee execute_setListingFee_opt related_fields [OF assms(1)])
     (simp add: related_def ucast96_id)

lemma sim_mint:
  assumes "related b q" and "unat (nextTokenIdCounter b) + 1 < 2 ^ 256"
  shows "same_outcome c (fst (execute (mintNFT a uri) b)) (fst (execute (mintNFT_opt a uri) q))
         \<and> related (snd (execute (mintNFT a uri) b)) (snd (execute (mintNFT_opt a uri) q))"
  using assms
  by (simp add: execute_mintNFT execute_mintNFT_opt related_fields [OF assms(1)])
     (simp add: related_def)

lemma isAuthorized_related: "related b q \<Longrightarrow> isAuthorized q x y z = isAuthorized b x y z"
  by (simp add: isAuthorized_def related_def)

lemma sim_transfer:
  assumes "related b q"
  shows "same_outcome c (fst (execute (transferFrom update a from to t) b)) (fst (execute (transferFrom update_opt a from to t) q))
         \<and> related (snd (execute (transferFrom update a from to t) b)) (snd (execute (transferFrom update_opt a from to t) q))"
  using assms
  by (simp add: execute_transferFrom execute_transferFrom_opt related_fields [OF assms] isAuthorized_related [OF assms])
     (simp add: related_def)

lemma sim_safe_transfer:
  assumes "related b q"
  shows "same_outcome c (fst (execute (safeTransferFrom update ev a from to t) b))
                        (fst (execute (safeTransferFrom update_opt ev a from to t) q))
         \<and> related (snd (execute (safeTransferFrom update ev a from to t) b))
                    (snd (execute (safeTransferFrom update_opt ev a from to t) q))"
  using assms
  by (simp add: execute_safeTransferFrom execute_safeTransferFrom_opt related_fields [OF assms] isAuthorized_related [OF assms])
     (simp add: related_def)

lemma ucast96_nonzero: "p \<le> uint96_max \<Longrightarrow> p \<noteq> 0 \<Longrightarrow> (ucast (p :: uint256) :: uint96) \<noteq> 0"
  using ucast96_id [of p] by auto

lemma sim_list:
  assumes "related b q" and "p \<le> uint96_max"
  shows "same_outcome (ListNFT m t p) (fst (execute (listNFT ev m t p) b)) (fst (execute (listNFT_opt ev m t p) q))
         \<and> related (snd (execute (listNFT ev m t p) b)) (snd (execute (listNFT_opt ev m t p) q))"
  using assms
  by (simp add: execute_listNFT execute_listNFT_opt related_fields [OF assms(1)] sub_nonzero_iff)
     (simp add: related_def ucast96_id ucast96_nonzero)

lemma sim_buy:
  assumes "related b q" and "escrow_total b \<le> eth_balance b"
      and "eth_balance b + unat (msg_value m) < 2 ^ 256"
  shows "same_outcome c (fst (execute (buyNFT ev m t) b)) (fst (execute (buyNFT_opt ev m t) q))
         \<and> related (snd (execute (buyNFT ev m t) b)) (snd (execute (buyNFT_opt ev m t) q))"
proof -
  have n: "price (listings b t) \<le> msg_value m \<Longrightarrow>
           unat (pendingWithdrawals b (seller (listings b t))) + unat (price (listings b t)) < 2 ^ 256"
  proof -
    assume "price (listings b t) \<le> msg_value m"
    then have "unat (price (listings b t)) \<le> unat (msg_value m)"
      by (simp add: word_le_nat_alt)
    moreover have "unat (pendingWithdrawals b (seller (listings b t))) \<le> eth_balance b"
      using balance_le_sum [of "pendingWithdrawals b" "seller (listings b t)"] assms(2)
      by (simp add: escrow_total_def)
    ultimately show ?thesis using assms(3) by linarith
  qed
  show ?thesis
    using assms(1) n
    by (simp add: execute_buyNFT execute_buyNFT_opt related_fields [OF assms(1)] sub_nonzero_iff)
       (simp add: related_def)
qed

lemma simulation_step:
  assumes "related b q" and "escrow_total b \<le> eth_balance b" and "fits_uint96 c"
      and "eth_balance b + paid_in c < 2 ^ 256" and "unat (nextTokenIdCounter b) + 1 < 2 ^ 256"
  shows "same_outcome c (fst (transact ev b c)) (fst (transact_opt ev q c))
         \<and> related (snd (transact ev b c)) (snd (transact_opt ev q c))"
proof (cases c)
  case (MintNFT a uri)
  show ?thesis unfolding MintNFT transact_def transact_opt_def dispatch.simps dispatch_opt.simps
    by (rule sim_mint [OF assms(1,5)])
next
  case (ListNFT m t p)
  have "p \<le> uint96_max" using assms(3) by (simp add: ListNFT)
  then show ?thesis unfolding ListNFT transact_def transact_opt_def dispatch.simps dispatch_opt.simps
    by (rule sim_list [OF assms(1)])
next
  case (BuyNFT m t)
  have "eth_balance b + unat (msg_value m) < 2 ^ 256" using assms(4) by (simp add: BuyNFT)
  then show ?thesis unfolding BuyNFT transact_def transact_opt_def dispatch.simps dispatch_opt.simps
    by (rule sim_buy [OF assms(1,2)])
next
  case (CancelListing a t)
  show ?thesis unfolding CancelListing transact_def transact_opt_def dispatch.simps dispatch_opt.simps
    by (rule sim_cancel [OF assms(1)])
next
  case (WithdrawFunds a)
  show ?thesis unfolding WithdrawFunds transact_def transact_opt_def dispatch.simps dispatch_opt.simps
    by (rule sim_polymorphic(1) [OF assms(1)])
next
  case (SetListingFee a newFee)
  have "newFee \<le> uint96_max" using assms(3) by (simp add: SetListingFee)
  then show ?thesis unfolding SetListingFee transact_def transact_opt_def dispatch.simps dispatch_opt.simps
    by (rule sim_setfee [OF assms(1)])
next
  case (TransferFrom a src dst t)
  show ?thesis unfolding TransferFrom transact_def transact_opt_def dispatch.simps dispatch_opt.simps
    by (rule sim_transfer [OF assms(1)])
next
  case (SafeTransferFrom a src dst t)
  show ?thesis unfolding SafeTransferFrom transact_def transact_opt_def dispatch.simps dispatch_opt.simps
    by (rule sim_safe_transfer [OF assms(1)])
next
  case (Approve a dst t)
  show ?thesis unfolding Approve transact_def transact_opt_def dispatch.simps dispatch_opt.simps
    by (rule sim_polymorphic(2) [OF assms(1)])
next
  case (SetApprovalForAll a x y)
  show ?thesis unfolding SetApprovalForAll transact_def transact_opt_def dispatch.simps dispatch_opt.simps
    by (rule sim_polymorphic(3) [OF assms(1)])
next
  case (TransferOwnership a dst)
  show ?thesis unfolding TransferOwnership transact_def transact_opt_def dispatch.simps dispatch_opt.simps
    by (rule sim_polymorphic(4) [OF assms(1)])
next
  case (RenounceOwnership a)
  show ?thesis unfolding RenounceOwnership transact_def transact_opt_def dispatch.simps dispatch_opt.simps
    by (rule sim_polymorphic(5) [OF assms(1)])
qed

lemma funded_step:
  "escrow_total s \<le> eth_balance s \<Longrightarrow>
   escrow_total (snd (transact ev s c)) \<le> eth_balance (snd (transact ev s c))"
  using balance_step [of ev s c] by linarith

lemma eth_grows: "eth_balance (snd (transact ev s c)) \<le> eth_balance s + paid_in c"
proof (cases c)
  case (BuyNFT m t)
  show ?thesis
    by (simp add: BuyNFT transact_def execute_buyNFT word_le_nat_alt)
qed (simp_all add: transact_def execute_base)

lemma counter_step:
  "unat (nextTokenIdCounter (snd (transact ev s c))) \<le> unat (nextTokenIdCounter s) + 1"
proof (cases c)
  case (MintNFT a uri)
  show ?thesis
    using unat_add_le [of "nextTokenIdCounter s" 1]
    by (simp add: MintNFT transact_def execute_mintNFT)
qed (simp_all add: transact_def execute_base)

lemma simulation_run:
  "related b q \<Longrightarrow> escrow_total b \<le> eth_balance b \<Longrightarrow> \<forall>tx\<in>set txs. fits_uint96 (snd tx) \<Longrightarrow>
   eth_balance b + total_paid txs < 2 ^ 256 \<Longrightarrow> unat (nextTokenIdCounter b) + length txs < 2 ^ 256 \<Longrightarrow>
   list_all2 agree (history b txs) (history_opt q txs) \<and> related (run b txs) (run_opt q txs)"
proof (induction txs arbitrary: b q)
  case Nil
  then show ?case by simp
next
  case (Cons tx txs)
  let ?b = "snd (transact (fst tx) b (snd tx))" and ?q = "snd (transact_opt (fst tx) q (snd tx))"
  have s: "same_outcome (snd tx) (fst (transact (fst tx) b (snd tx))) (fst (transact_opt (fst tx) q (snd tx)))
           \<and> related ?b ?q"
    using Cons.prems by (intro simulation_step) simp_all
  have f: "escrow_total ?b \<le> eth_balance ?b"
    using Cons.prems(2) by (rule funded_step)
  have e: "eth_balance ?b + total_paid txs < 2 ^ 256"
    using eth_grows [of "fst tx" b "snd tx"] Cons.prems(4) by simp
  have n: "unat (nextTokenIdCounter ?b) + length txs < 2 ^ 256"
    using counter_step [of "fst tx" b "snd tx"] Cons.prems(5) by simp
  have "list_all2 agree (history ?b txs) (history_opt ?q txs) \<and> related (run ?b txs) (run_opt ?q txs)"
    using s f e n Cons.prems(3) by (intro Cons.IH) simp_all
  then show ?case using s by simp
qed

lemma related_init: "related (init d) (init_opt d)"
  by (simp add: related_def init_def init_opt_def word_unat_eq_iff unat_ucast96)

lemma events_erase: "events (map erase l) = events l"
  by (induction l rule: events.induct) simp_all

lemma agree_events:
  "list_all2 agree h h' \<Longrightarrow>
   map (\<lambda>x. events (log_of (snd x))) h = map (\<lambda>x. events (log_of (snd x))) h'"
proof (induction h h' rule: list_all2_induct)
  case Nil
  show ?case by simp
next
  case (Cons x xs y ys)
  obtain c out c' out' where x: "x = (c, out)" and y: "y = (c', out')"
    by (cases x, cases y) auto
  have "events (log_of out) = events (log_of out')"
  proof (cases out)
    case (Success l)
    then show ?thesis
      using Cons.hyps(1) events_erase [of l]
      by (cases out') (auto simp: x y dest: arg_cong [where f = events] simp: events_erase)
  next
    case (Reverted e)
    then show ?thesis using Cons.hyps(1) by (cases out') (simp_all add: x y)
  qed
  then show ?case using Cons.IH by (simp add: x y)
qed

text \<open>
  C9, as amended. Take any history from deployment in which every listed price and every
  new fee fits \<^verbatim>\<open>uint96\<close> (and which, as any history on the chain, has fewer than
  \<open>2 ^ 256\<close> calls and brings in less than \<open>2 ^ 256\<close> wei, so that the unchecked counter
  and escrow additions of the optimised contract do not wrap). Run on both contracts, each
  call succeeds in both or fails in both; a successful call writes the same variables,
  sends the same ether and emits the same events in both; a failing call reports the same
  error in both, unless it is a listing, which may report a different one of its failing
  checks. After the history the two contracts have the same token owners and the same
  pending withdrawals, and \<^verbatim>\<open>getListing\<close> reports the same activity (and, for an active
  listing, the same price and seller).
\<close>

theorem optimised_agrees_with_baseline:
  assumes "\<forall>tx\<in>set txs. fits_uint96 (snd tx)" and "total_paid txs < 2 ^ 256" and "length txs < 2 ^ 256"
  shows "list_all2 agree (history (init d) txs) (history_opt (init_opt d) txs)
     \<and> map (\<lambda>x. events (log_of (snd x))) (history (init d) txs)
         = map (\<lambda>x. events (log_of (snd x))) (history_opt (init_opt d) txs)
     \<and> erc721_owners (run (init d) txs) = erc721_owners (run_opt (init_opt d) txs)
     \<and> pendingWithdrawals (run (init d) txs) = pendingWithdrawals (run_opt (init_opt d) txs)
     \<and> (\<forall>t. isActive (getListing (run (init d) txs) t)
              = snd (snd (getListing_opt (run_opt (init_opt d) txs) t)))
     \<and> (\<forall>t. isActive (getListing (run (init d) txs) t) \<longrightarrow>
              price (getListing (run (init d) txs) t) = ucast (fst (getListing_opt (run_opt (init_opt d) txs) t))
              \<and> seller (getListing (run (init d) txs) t) = fst (snd (getListing_opt (run_opt (init_opt d) txs) t)))"
proof -
  have r: "list_all2 agree (history (init d) txs) (history_opt (init_opt d) txs)
           \<and> related (run (init d) txs) (run_opt (init_opt d) txs)"
    using assms
    by (intro simulation_run related_init) (simp_all add: escrow_total_init, simp_all add: init_def)
  then have rel: "related (run (init d) txs) (run_opt (init_opt d) txs)" by simp
  show ?thesis
    using r agree_events [of "history (init d) txs" "history_opt (init_opt d) txs"]
          related_fields [OF rel]
    by (simp add: getListing_def getListing_opt_def Let_def word_greater_zero_iff)
qed

theorem optimised_agrees_with_baseline_witness:
  "list_all2 agree (history (init 1) demo_txs) (history_opt (init_opt 1) demo_txs)
   \<and> map (\<lambda>x. events (log_of (snd x))) (history (init 1) demo_txs)
       = [[Transfer 0 2 0, MetadataUpdate 0], [NFTListed 0 2 5], [Transfer 2 3 0, NFTSold 0 3 2 5], []]
   \<and> map (\<lambda>x. events (log_of (snd x))) (history_opt (init_opt 1) demo_txs)
       = [[Transfer 0 2 0, MetadataUpdate 0], [NFTListed 0 2 5], [Transfer 2 3 0, NFTSold 0 3 2 5], []]
   \<and> erc721_owners (run (init 1) demo_txs) 0 = 3
   \<and> erc721_owners (run_opt (init_opt 1) demo_txs) 0 = 3
   \<and> isActive (getListing (run (init 1) listing_txs) 0)
   \<and> snd (snd (getListing_opt (run_opt (init_opt 1) listing_txs) 0))"
proof -
  have h: "\<forall>tx\<in>set demo_txs. fits_uint96 (snd tx)" "total_paid demo_txs < 2 ^ 256" "length demo_txs < 2 ^ 256"
          "\<forall>tx\<in>set listing_txs. fits_uint96 (snd tx)" "total_paid listing_txs < 2 ^ 256" "length listing_txs < 2 ^ 256"
    by (simp_all add: demo_txs_def sale_txs_def listing_txs_def uint96_max_def)
  have e: "map (\<lambda>x. events (log_of (snd x))) (history (init 1) demo_txs)
       = [[Transfer 0 2 0, MetadataUpdate 0], [NFTListed 0 2 5], [Transfer 2 3 0, NFTSold 0 3 2 5], []]"
    by (simp add: eval_simps)
  have o: "erc721_owners (run (init 1) demo_txs) 0 = 3" "isActive (getListing (run (init 1) listing_txs) 0)"
    by (simp_all add: eval_simps getListing_def)
  show ?thesis
    using optimised_agrees_with_baseline [OF h(1,2,3), of 1] optimised_agrees_with_baseline [OF h(4,5,6), of 1] e o
    by (auto dest: fun_cong [where x = 0])
qed

text \<open>
  The claim as stated fails on how a call fails: a listing by a non-owner at price zero is
  rejected with "Not the owner" by the baseline and with "Price must be greater than 0" by
  the optimised contract, which checks the price first.
\<close>

theorem optimised_agrees_with_baseline_counterexample:
  "fits_uint96 (ListNFT \<lparr>msg_sender = 3, msg_value = 10000000000000000\<rparr> 0 0)
   \<and> fst (transact env_ok (run (init 1) [(env_ok, MintNFT 2 ''ipfs://a'')])
        (ListNFT \<lparr>msg_sender = 3, msg_value = 10000000000000000\<rparr> 0 0))
      = Reverted (Error ''Not the owner'')
   \<and> fst (transact_opt env_ok (run_opt (init_opt 1) [(env_ok, MintNFT 2 ''ipfs://a'')])
        (ListNFT \<lparr>msg_sender = 3, msg_value = 10000000000000000\<rparr> 0 0))
      = Reverted (Error ''Price must be greater than 0'')"
  by (simp add: eval_simps uint96_max_def)

end
